theory Spec2Isabelle
  imports Complex_Main
begin

chapter \<open>The programs as functions\<close>

section \<open>Python values\<close>

text \<open>
  The analyzer works on JSON-decoded data whose shape it does not trust, so the model has
  one type of Python values. A dict is an association list in insertion order with string
  keys (JSON object keys are strings). Python's \<open>bool\<close> is a subclass of \<open>int\<close> with
  \<open>True == 1\<close> and \<open>False == 0\<close>, and none of the functions below tells them apart, so
  \<open>True\<close> is \<open>PInt 1\<close> and \<open>False\<close> is \<open>PInt 0\<close>. Non-integral JSON numbers (floats) lie
  outside the model. A string is the list of its characters, read as code points below 256.
  Values are trees, as a JSON decoder builds them: no object is shared between two places.
\<close>

datatype pyval =
    PNone
  | PInt int
  | PStr string
  | PList "pyval list"
  | PDict "(string \<times> pyval) list"

datatype error = TypeError | AttributeError | KeyError

text \<open>Truth value testing: \<open>if x\<close>, \<open>not x\<close>.\<close>

fun truthy :: "pyval \<Rightarrow> bool" where
  "truthy PNone = False"
| "truthy (PInt n) = (n \<noteq> 0)"
| "truthy (PStr s) = (s \<noteq> [])"
| "truthy (PList xs) = (xs \<noteq> [])"
| "truthy (PDict d) = (d \<noteq> [])"

fun isinstance_dict :: "pyval \<Rightarrow> bool" where
  "isinstance_dict (PDict d) = True"
| "isinstance_dict _ = False"

fun isinstance_list :: "pyval \<Rightarrow> bool" where
  "isinstance_list (PList xs) = True"
| "isinstance_list _ = False"

text \<open>Hashable values can be dict keys and set members; lists and dicts cannot.\<close>

fun hashable :: "pyval \<Rightarrow> bool" where
  "hashable (PList xs) = False"
| "hashable (PDict d) = False"
| "hashable _ = True"

text \<open>\<open>k in d\<close>, \<open>d.get(k)\<close> (default \<open>None\<close>), \<open>d.get(k, default)\<close> and \<open>d[k] = v\<close>.
  An assignment keeps the position of a key that is present and appends a new key.\<close>

definition dict_in :: "'k \<Rightarrow> ('k \<times> 'v) list \<Rightarrow> bool" where
  "dict_in k d = (map_of d k \<noteq> None)"

definition dict_get_default :: "('k \<times> 'v) list \<Rightarrow> 'k \<Rightarrow> 'v \<Rightarrow> 'v" where
  "dict_get_default d k dflt = (case map_of d k of None \<Rightarrow> dflt | Some v \<Rightarrow> v)"

definition dict_get :: "('k \<times> pyval) list \<Rightarrow> 'k \<Rightarrow> pyval" where
  "dict_get d k = dict_get_default d k PNone"

fun dict_set :: "('k \<times> 'v) list \<Rightarrow> 'k \<Rightarrow> 'v \<Rightarrow> ('k \<times> 'v) list" where
  "dict_set [] k v = [(k, v)]"
| "dict_set ((k', v') # d) k v =
     (if k' = k then (k, v) # d else (k', v') # dict_set d k v)"

section \<open>Track sanitizer (appv2.py, \<open>sanitize_track_list\<close>)\<close>

text \<open>
  The placeholders of the source are Turkish: the name placeholder reads "Isimsiz Parca"
  (untitled track), the artist "Bilinmeyen Sanatci" (unknown artist), the album
  "Bilinmeyen Album" (unknown album). Their letters with diacritics are written here by
  the ASCII base letter; no function inspects a placeholder beyond its being non-empty.
\<close>

definition placeholder_name :: pyval where
  "placeholder_name = PStr ''Isimsiz Parca''"

definition placeholder_artists :: pyval where
  "placeholder_artists = PList [PDict [(''id'', PNone), (''name'', PStr ''Bilinmeyen Sanatci'')]]"

definition placeholder_album :: pyval where
  "placeholder_album = PDict [(''name'', PStr ''Bilinmeyen Album''), (''release_date'', PStr ''1900'')]"

text \<open>
  Step 1 of the loop body: a wrapper \<open>{'track': {...}}\<close> is unwrapped, a dict with an \<open>id\<close>
  key is taken as it is, anything else leaves \<open>track_obj = None\<close>.
\<close>

definition extract_track_obj :: "pyval \<Rightarrow> (string \<times> pyval) list option" where
  "extract_track_obj item =
     (case item of
        PDict d \<Rightarrow>
          (if dict_in ''track'' d \<and> isinstance_dict (dict_get d ''track'')
           then (case dict_get d ''track'' of PDict t \<Rightarrow> Some t | _ \<Rightarrow> None)
           else if dict_in ''id'' d then Some d
           else None)
      | _ \<Rightarrow> None)"

text \<open>
  Step 4, the patching of one track object. Each check reads the object as the checks
  before it left it; the flag is \<open>is_patched\<close>.
\<close>

definition patch_name :: "(string \<times> pyval) list \<times> bool \<Rightarrow> (string \<times> pyval) list \<times> bool" where
  "patch_name = (\<lambda>(t, p).
     if \<not> truthy (dict_get t ''name'') then (dict_set t ''name'' placeholder_name, True)
     else (t, p))"

definition patch_artists :: "(string \<times> pyval) list \<times> bool \<Rightarrow> (string \<times> pyval) list \<times> bool" where
  "patch_artists = (\<lambda>(t, p).
     if \<not> truthy (dict_get t ''artists'') \<or> \<not> isinstance_list (dict_get t ''artists'')
        \<or> \<not> truthy (dict_get t ''artists'')
     then (dict_set t ''artists'' placeholder_artists, True)
     else (t, p))"

definition patch_album :: "(string \<times> pyval) list \<times> bool \<Rightarrow> (string \<times> pyval) list \<times> bool" where
  "patch_album = (\<lambda>(t, p).
     if \<not> truthy (dict_get t ''album'') \<or> \<not> isinstance_dict (dict_get t ''album'')
     then (dict_set t ''album'' placeholder_album, True)
     else (t, p))"

definition patch_popularity :: "(string \<times> pyval) list \<times> bool \<Rightarrow> (string \<times> pyval) list \<times> bool" where
  "patch_popularity = (\<lambda>(t, p).
     if \<not> dict_in ''popularity'' t then (dict_set t ''popularity'' (PInt 0), True)
     else (t, p))"

definition patch_track :: "(string \<times> pyval) list \<Rightarrow> (string \<times> pyval) list \<times> bool" where
  "patch_track t = patch_popularity (patch_album (patch_artists (patch_name (t, False))))"

text \<open>
  The function returns \<open>clean_tracks\<close>; the two counters are what it reports through the
  logger and the toast, and the model returns them beside the list.
\<close>

record sanitized =
  clean_tracks :: "pyval list"
  invalid_count :: nat
  patched_count :: nat

definition sanitize_item :: "pyval \<Rightarrow> sanitized \<Rightarrow> sanitized" where
  "sanitize_item item s =
     (case extract_track_obj item of
        None \<Rightarrow> s\<lparr>invalid_count := invalid_count s + 1\<rparr>
      | Some t \<Rightarrow>
          if \<not> truthy (PDict t) then s\<lparr>invalid_count := invalid_count s + 1\<rparr>
          else if \<not> truthy (dict_get t ''id'') then s\<lparr>invalid_count := invalid_count s + 1\<rparr>
          else (case patch_track t of
                  (t', is_patched) \<Rightarrow>
                    s\<lparr>clean_tracks := clean_tracks s @ [PDict t'],
                      patched_count := (if is_patched then patched_count s + 1 else patched_count s)\<rparr>))"

fun sanitize_loop :: "pyval list \<Rightarrow> sanitized \<Rightarrow> sanitized" where
  "sanitize_loop [] s = s"
| "sanitize_loop (item # items) s = sanitize_loop items (sanitize_item item s)"

definition sanitize_track_list :: "pyval list \<Rightarrow> sanitized" where
  "sanitize_track_list tracks =
     (if tracks = [] then \<lparr>clean_tracks = [], invalid_count = 0, patched_count = 0\<rparr>
      else sanitize_loop tracks \<lparr>clean_tracks = [], invalid_count = 0, patched_count = 0\<rparr>)"

text \<open>The invariants of an emitted track that the sanitizer is said to establish.\<close>

definition nonempty_list :: "pyval \<Rightarrow> bool" where
  "nonempty_list v = (case v of PList (x # xs) \<Rightarrow> True | _ \<Rightarrow> False)"

definition popularity_in_range :: "pyval \<Rightarrow> bool" where
  "popularity_in_range v = (case v of PInt n \<Rightarrow> 0 \<le> n \<and> n \<le> 100 | _ \<Rightarrow> False)"

definition track_field :: "pyval \<Rightarrow> string \<Rightarrow> pyval" where
  "track_field t k = (case t of PDict d \<Rightarrow> dict_get d k | _ \<Rightarrow> PNone)"

definition has_field :: "pyval \<Rightarrow> string \<Rightarrow> bool" where
  "has_field t k = (case t of PDict d \<Rightarrow> dict_in k d | _ \<Rightarrow> False)"

text \<open>
  What one raw item contributes: the emitted track with its \<open>is_patched\<close> flag, or nothing
  when the item is dropped as invalid. The loop is characterised through it below.
\<close>

definition emitted :: "pyval \<Rightarrow> (pyval \<times> bool) option" where
  "emitted item =
     (case extract_track_obj item of
        None \<Rightarrow> None
      | Some t \<Rightarrow>
          if truthy (PDict t) \<and> truthy (dict_get t ''id'')
          then Some (PDict (fst (patch_track t)), snd (patch_track t)) else None)"

section \<open>Decade histogram (\<open>get_decade_distribution\<close>)\<close>

text \<open>\<open>safe_get(data, *keys, default)\<close>: the walk stops with the default at the first
  value that is not a dict.\<close>

fun safe_get :: "pyval \<Rightarrow> string list \<Rightarrow> pyval \<Rightarrow> pyval" where
  "safe_get data [] dflt = data"
| "safe_get data (key # keys) dflt =
     (case data of
        PDict d \<Rightarrow> safe_get (dict_get_default d key dflt) keys dflt
      | _ \<Rightarrow> dflt)"

text \<open>
  Python's \<open>int(s)\<close> on a string, base 10: surrounding whitespace is stripped, one sign
  may lead, and the digits may be grouped by single underscores between digits. The
  whitespace accepted is tab, line feed, vertical tab, form feed, carriage return and
  space, and of the code points from 128 to 255 the two Unicode spaces U+0085 and U+00A0;
  the only decimal digits below 256 are \<open>0\<close> to \<open>9\<close>. \<open>None\<close> is \<open>ValueError\<close>.
\<close>

definition py_isspace :: "char \<Rightarrow> bool" where
  "py_isspace c = ((of_char c :: nat) \<in> {9, 10, 11, 12, 13, 32, 133, 160})"

definition py_isdigit :: "char \<Rightarrow> bool" where
  "py_isdigit c = (48 \<le> (of_char c :: nat) \<and> (of_char c :: nat) \<le> 57)"

definition digit_value :: "char \<Rightarrow> nat" where
  "digit_value c = (of_char c :: nat) - 48"

fun py_digits :: "string \<Rightarrow> nat \<Rightarrow> nat option" where
  "py_digits [] acc = Some acc"
| "py_digits (c # cs) acc =
     (if py_isdigit c then py_digits cs (10 * acc + digit_value c)
      else if c = CHR ''_'' then
        (case cs of
           [] \<Rightarrow> None
         | d # ds \<Rightarrow> if py_isdigit d then py_digits cs acc else None)
      else None)"

definition py_unsigned :: "string \<Rightarrow> nat option" where
  "py_unsigned s =
     (case s of [] \<Rightarrow> None | c # cs \<Rightarrow> if py_isdigit c then py_digits s 0 else None)"

definition py_strip :: "string \<Rightarrow> string" where
  "py_strip s = rev (dropWhile py_isspace (rev (dropWhile py_isspace s)))"

definition py_int :: "string \<Rightarrow> int option" where
  "py_int s =
     (case py_strip s of
        [] \<Rightarrow> None
      | c # cs \<Rightarrow>
          if c = CHR ''-'' then map_option (\<lambda>n. - int n) (py_unsigned cs)
          else if c = CHR ''+'' then map_option int (py_unsigned cs)
          else map_option int (py_unsigned (c # cs)))"

text \<open>\<open>str(n)\<close> for an integer, as the f-string formats the decade.\<close>

fun nat_digits :: "nat \<Rightarrow> string" where
  "nat_digits n =
     (if n < 10 then [char_of (48 + n)]
      else nat_digits (n div 10) @ [char_of (48 + n mod 10)])"

definition py_str_int :: "int \<Rightarrow> string" where
  "py_str_int i = (if i < 0 then CHR ''-'' # nat_digits (nat (- i)) else nat_digits (nat i))"

text \<open>The bucket label \<open>f"{decade}'ler"\<close>: the decade with the Turkish plural suffix.\<close>

definition decade_label :: "int \<Rightarrow> string" where
  "decade_label decade = py_str_int decade @ '''ler''"

text \<open>A \<open>Counter\<close>: a missing key reads as 0, and \<open>c[k] += 1\<close> stores the key.\<close>

definition counter_get :: "('k \<times> nat) list \<Rightarrow> 'k \<Rightarrow> nat" where
  "counter_get c k = dict_get_default c k 0"

definition counter_inc :: "('k \<times> nat) list \<Rightarrow> 'k \<Rightarrow> ('k \<times> nat) list" where
  "counter_inc c k = dict_set c k (counter_get c k + 1)"

text \<open>
  The guarded part of the loop body of appv2.py, \<open>if release_date and len(release_date) >= 4\<close>
  followed by \<open>int(release_date[:4])\<close> under \<open>except (ValueError, TypeError)\<close>:
  \<^item> a falsy value is skipped;
  \<^item> a non-zero integer has no \<open>len\<close>: the \<open>TypeError\<close> is raised outside the \<open>try\<close>
    and leaves the function;
  \<^item> a string of at least 4 characters is parsed, and a \<open>ValueError\<close> skips the track;
  \<^item> a list of at least 4 elements is sliced to a list, on which \<open>int\<close> raises the
    \<open>TypeError\<close> that the handler catches;
  \<^item> a dict of at least 4 entries cannot be sliced: before Python 3.12 the slice is
    unhashable (\<open>TypeError\<close>, caught), from 3.12 on it is a missing key (\<open>KeyError\<close>,
    which the handler does not catch). The flag \<open>hashable_slice\<close> says which Python runs.

  The result is the year, \<open>None\<close> for a skipped track.
\<close>

definition release_year :: "bool \<Rightarrow> pyval \<Rightarrow> error + int option" where
  "release_year hashable_slice release_date =
     (if \<not> truthy release_date then Inr None
      else case release_date of
          PNone \<Rightarrow> Inr None
        | PInt n \<Rightarrow> Inl TypeError
        | PStr s \<Rightarrow> if length s \<ge> 4 then Inr (py_int (take 4 s)) else Inr None
        | PList xs \<Rightarrow> Inr None
        | PDict d \<Rightarrow> if length d \<ge> 4 \<and> hashable_slice then Inl KeyError else Inr None)"

fun decade_loop :: "bool \<Rightarrow> pyval list \<Rightarrow> (string \<times> nat) list \<Rightarrow> error + (string \<times> nat) list" where
  "decade_loop hashable_slice [] decades = Inr decades"
| "decade_loop hashable_slice (track # tracks) decades =
     (case release_year hashable_slice (safe_get track [''album'', ''release_date''] (PStr '''')) of
        Inl e \<Rightarrow> Inl e
      | Inr None \<Rightarrow> decade_loop hashable_slice tracks decades
      | Inr (Some year) \<Rightarrow>
          decade_loop hashable_slice tracks
            (counter_inc decades (decade_label ((year div 10) * 10))))"

definition get_decade_distribution :: "bool \<Rightarrow> pyval list \<Rightarrow> error + (string \<times> nat) list" where
  "get_decade_distribution hashable_slice tracks = decade_loop hashable_slice tracks []"

text \<open>
  The same function in app.py. It unwraps \<open>track.get('track', track)\<close>, reads
  \<open>track_obj.get('album', {}).get('release_date', '')\<close> (an \<open>AttributeError\<close> when one of
  the three receivers is not a dict), tests only \<open>if release_date\<close>, and its bare
  \<open>except\<close> swallows whatever the slicing and the parsing raise.
\<close>

definition release_date_app :: "pyval \<Rightarrow> error + pyval" where
  "release_date_app track =
     (case track of
        PDict d \<Rightarrow>
          (case dict_get_default d ''track'' track of
             PDict track_obj \<Rightarrow>
               (case dict_get_default track_obj ''album'' (PDict []) of
                  PDict album \<Rightarrow> Inr (dict_get_default album ''release_date'' (PStr ''''))
                | _ \<Rightarrow> Inl AttributeError)
           | _ \<Rightarrow> Inl AttributeError)
      | _ \<Rightarrow> Inl AttributeError)"

definition release_year_app :: "pyval \<Rightarrow> int option" where
  "release_year_app release_date =
     (if \<not> truthy release_date then None
      else case release_date of PStr s \<Rightarrow> py_int (take 4 s) | _ \<Rightarrow> None)"

fun decade_loop_app :: "pyval list \<Rightarrow> (string \<times> nat) list \<Rightarrow> error + (string \<times> nat) list" where
  "decade_loop_app [] decades = Inr decades"
| "decade_loop_app (track # tracks) decades =
     (case release_date_app track of
        Inl e \<Rightarrow> Inl e
      | Inr release_date \<Rightarrow>
          (case release_year_app release_date of
             None \<Rightarrow> decade_loop_app tracks decades
           | Some year \<Rightarrow>
               decade_loop_app tracks (counter_inc decades (decade_label ((year div 10) * 10)))))"

definition get_decade_distribution_app :: "pyval list \<Rightarrow> error + (string \<times> nat) list" where
  "get_decade_distribution_app tracks = decade_loop_app tracks []"

text \<open>
  The spec's words for the year of a track, to compare the loop with: the release date is
  present, at least 4 characters long, and its first 4 characters parse as an integer.
  The decade is the year floor-divided by 10, times 10.
\<close>

definition spec_year :: "pyval \<Rightarrow> int option" where
  "spec_year track =
     (case safe_get track [''album'', ''release_date''] (PStr '''') of
        PStr s \<Rightarrow> if s \<noteq> [] \<and> length s \<ge> 4 then py_int (take 4 s) else None
      | _ \<Rightarrow> None)"

definition spec_decade :: "int \<Rightarrow> int" where
  "spec_decade year = (year div 10) * 10"

text \<open>The spec's scenario 1: one wrapper item whose track has an id, a popularity and an
  album with a release date.\<close>

definition scenario_item :: pyval where
  "scenario_item =
     PDict [(''track'', PDict [(''id'', PStr ''t1''), (''popularity'', PInt 80),
                                (''album'', PDict [(''release_date'', PStr ''1994-03-01'')])])]"

definition scenario_track :: pyval where
  "scenario_track =
     PDict [(''id'', PStr ''t1''), (''popularity'', PInt 80),
            (''album'', PDict [(''release_date'', PStr ''1994-03-01'')]),
            (''name'', placeholder_name), (''artists'', placeholder_artists)]"

text \<open>
  The raw items the placeholder album is about. \<open>album_missing\<close> is the condition on the
  extracted track object: it has no \<open>album\<close> field, or the field is not a mapping.
  \<open>kept_without_album\<close> holds of a raw item when the sanitizer keeps it (steps 1 to 3: a
  track object is extracted, it is not empty and its \<open>id\<close> is truthy) and its track object
  is such. \<open>in_1900s\<close> holds of a track when its release date qualifies and its decade label
  is \<open>1900'ler\<close>.
\<close>

definition album_missing :: "(string \<times> pyval) list \<Rightarrow> bool" where
  "album_missing raw = (\<not> dict_in ''album'' raw \<or> \<not> isinstance_dict (dict_get raw ''album''))"

definition kept_without_album :: "pyval \<Rightarrow> bool" where
  "kept_without_album item =
     (case extract_track_obj item of
        None \<Rightarrow> False
      | Some raw \<Rightarrow> truthy (PDict raw) \<and> truthy (dict_get raw ''id'') \<and> album_missing raw)"

definition in_1900s :: "pyval \<Rightarrow> bool" where
  "in_1900s t =
     (case spec_year t of
        None \<Rightarrow> False
      | Some y \<Rightarrow> decade_label (spec_decade y) = ''1900'ler'')"

text \<open>
  A mixed list: a bare record without album, a record with a real album of 2001, a
  non-mapping (dropped), a wrapper whose track has a string for an album, and the first
  record again.
\<close>

definition mixed_items :: "pyval list" where
  "mixed_items =
     [PDict [(''id'', PStr ''a'')],
      PDict [(''id'', PStr ''c''), (''album'', PDict [(''release_date'', PStr ''2001-05-01'')])],
      PInt 1,
      PDict [(''track'', PDict [(''id'', PStr ''b''), (''album'', PStr ''x'')])],
      PDict [(''id'', PStr ''a'')]]"

section \<open>Popularity statistics (\<open>analyze_popularity\<close>)\<close>

text \<open>
  The comprehension of appv2.py,
  \<open>[track.get('popularity', 0) for track in tracks if track.get('popularity')]\<close>:
  \<open>.get\<close> on a track that is not a dict raises \<open>AttributeError\<close>, which leaves the function.
\<close>

fun popularities :: "pyval list \<Rightarrow> error + pyval list" where
  "popularities [] = Inr []"
| "popularities (track # tracks) =
     (case track of
        PDict d \<Rightarrow>
          (case popularities tracks of
             Inl e \<Rightarrow> Inl e
           | Inr ps \<Rightarrow>
               if truthy (dict_get d ''popularity'')
               then Inr (dict_get_default d ''popularity'' (PInt 0) # ps)
               else Inr ps)
      | _ \<Rightarrow> Inl AttributeError)"

text \<open>
  The comprehension of app.py reads the popularity of \<open>track.get('track', track)\<close>: the
  value under \<open>track\<close> when the key is there, the track itself otherwise. Both the track
  and that object must be dicts for \<open>.get\<close> to exist.
\<close>

definition unwrap_app :: "pyval \<Rightarrow> error + (string \<times> pyval) list" where
  "unwrap_app track =
     (case track of
        PDict d \<Rightarrow>
          (case dict_get_default d ''track'' track of
             PDict track_obj \<Rightarrow> Inr track_obj
           | _ \<Rightarrow> Inl AttributeError)
      | _ \<Rightarrow> Inl AttributeError)"

fun popularities_app :: "pyval list \<Rightarrow> error + pyval list" where
  "popularities_app [] = Inr []"
| "popularities_app (track # tracks) =
     (case unwrap_app track of
        Inl e \<Rightarrow> Inl e
      | Inr track_obj \<Rightarrow>
          (case popularities_app tracks of
             Inl e \<Rightarrow> Inl e
           | Inr ps \<Rightarrow>
               if truthy (dict_get track_obj ''popularity'')
               then Inr (dict_get_default track_obj ''popularity'' (PInt 0) # ps)
               else Inr ps))"

text \<open>
  \<open>statistics.mean\<close> and \<open>statistics.median\<close> on integers. The mean is kept as the exact
  quotient (Python returns the integer when the quotient is one and its nearest float
  otherwise), and so is the mean of the two middle values of an even-sized sample. Both
  are only called on a non-empty sample.
\<close>

definition statistics_mean :: "int list \<Rightarrow> rat" where
  "statistics_mean data = of_int (sum_list data) / of_nat (length data)"

definition statistics_median :: "int list \<Rightarrow> rat" where
  "statistics_median xs =
     (let data = sort xs; n = length data in
      if n mod 2 = 1 then of_int (data ! (n div 2))
      else (of_int (data ! (n div 2 - 1)) + of_int (data ! (n div 2))) / 2)"

text \<open>The sample as integers; \<open>None\<close> when a collected value is not a number, on which
  \<open>statistics.mean\<close> raises \<open>TypeError\<close>.\<close>

fun as_ints :: "pyval list \<Rightarrow> int list option" where
  "as_ints [] = Some []"
| "as_ints (PInt n # ps) = map_option ((#) n) (as_ints ps)"
| "as_ints (p # ps) = None"

record popularity_stats =
  avg :: rat
  max_popularity :: int
  min_popularity :: int
  median :: rat

text \<open>What both files do with the collected list: \<open>None\<close> when it is empty, the four
  statistics otherwise.\<close>

definition stats_of :: "pyval list \<Rightarrow> error + popularity_stats option" where
  "stats_of ps =
     (if ps = [] then Inr None
      else case as_ints ps of
          None \<Rightarrow> Inl TypeError
        | Some [] \<Rightarrow> Inr None
        | Some (x # xs) \<Rightarrow>
            Inr (Some \<lparr>avg = statistics_mean (x # xs),
                       max_popularity = fold max xs x,
                       min_popularity = fold min xs x,
                       median = statistics_median (x # xs)\<rparr>))"

definition analyze_popularity :: "pyval list \<Rightarrow> error + popularity_stats option" where
  "analyze_popularity tracks =
     (case popularities tracks of Inl e \<Rightarrow> Inl e | Inr ps \<Rightarrow> stats_of ps)"

definition analyze_popularity_app :: "pyval list \<Rightarrow> error + popularity_stats option" where
  "analyze_popularity_app tracks =
     (case popularities_app tracks of Inl e \<Rightarrow> Inl e | Inr ps \<Rightarrow> stats_of ps)"

text \<open>
  The claim's words: the popularity an input track has (read from the unwrapped object
  in app.py), and the integer sample of the truthy ones.
\<close>

definition track_popularity :: "pyval \<Rightarrow> pyval" where
  "track_popularity track = track_field track ''popularity''"

definition track_popularity_app :: "pyval \<Rightarrow> pyval" where
  "track_popularity_app track =
     (case unwrap_app track of Inl e \<Rightarrow> PNone | Inr track_obj \<Rightarrow> dict_get track_obj ''popularity'')"

fun int_sample :: "pyval list \<Rightarrow> int list" where
  "int_sample [] = []"
| "int_sample (PInt n # ps) = (if n \<noteq> 0 then n # int_sample ps else int_sample ps)"
| "int_sample (p # ps) = int_sample ps"

fun int_or_falsy :: "pyval \<Rightarrow> bool" where
  "int_or_falsy (PInt n) = True"
| "int_or_falsy p = (\<not> truthy p)"

definition spec_stats :: "int list \<Rightarrow> popularity_stats" where
  "spec_stats ns =
     \<lparr>avg = of_int (sum_list ns) / of_nat (length ns),
      max_popularity = Max (set ns),
      min_popularity = Min (set ns),
      median = (if odd (length ns) then of_int (sort ns ! (length ns div 2))
                else (of_int (sort ns ! (length ns div 2 - 1)) +
                      of_int (sort ns ! (length ns div 2))) / 2)\<rparr>"

section \<open>Recommendation reconciler (the search loop of \<open>create_spotify_playlist\<close>)\<close>

text \<open>
  The suggestions reach \<open>create_spotify_playlist\<close> as the JSON text that
  \<open>Playlist.model_validate_json\<close> accepted, so every song has a string \<open>artist\<close> and a
  string \<open>track\<close>. The catalog search is a parameter: \<open>sp_search q\<close> is the response to
  \<open>sp.search(q=q, type='track', limit=1)\<close>, \<open>None\<close> when the call raises.
\<close>

record song =
  song_artist :: string
  song_track :: string

definition PLAYLIST_TARGET_SIZE :: nat where
  "PLAYLIST_TARGET_SIZE = 10"

text \<open>
  \<open>results['tracks']['items'][0]['uri']\<close>, guarded by \<open>if results['tracks']['items']\<close>.
  \<open>Some uri\<close> is the value assigned to \<open>track_uri\<close>; \<open>None\<close> means that no assignment
  happens: the item list is falsy, or a subscript raises (a missing key, a subscript on a
  value that is not a dict or a list), and the handler of the phase swallows it.
\<close>

definition first_track_uri :: "pyval \<Rightarrow> pyval option" where
  "first_track_uri results =
     (case results of
        PDict d \<Rightarrow>
          (case map_of d ''tracks'' of
             Some (PDict tracks) \<Rightarrow>
               (case map_of tracks ''items'' of
                  Some (PList (PDict item # items)) \<Rightarrow> map_of item ''uri''
                | _ \<Rightarrow> None)
           | _ \<Rightarrow> None)
      | _ \<Rightarrow> None)"

text \<open>One search phase: the query is issued, and \<open>track_uri\<close> keeps its value unless the
  response yields a first item's \<open>uri\<close>.\<close>

definition search_phase :: "(string \<Rightarrow> pyval option) \<Rightarrow> string \<Rightarrow> pyval \<Rightarrow> pyval" where
  "search_phase sp_search q track_uri =
     (case sp_search q of
        None \<Rightarrow> track_uri
      | Some results \<Rightarrow>
          (case first_track_uri results of None \<Rightarrow> track_uri | Some uri \<Rightarrow> uri))"

definition query_specific :: "song \<Rightarrow> string" where
  "query_specific s =
     ''track:'' @ [CHR 0x22] @ song_track s @ [CHR 0x22] @ '' artist:'' @ [CHR 0x22] @
     song_artist s @ [CHR 0x22]"

definition query_general :: "song \<Rightarrow> string" where
  "query_general s = song_artist s @ '' '' @ song_track s"

text \<open>The locals of the loop, and the log of the queries sent to the catalog.\<close>

record search_state =
  track_uris :: "pyval list"
  songs_found_count :: nat
  not_found_songs :: "string list"
  searches :: "string list"

definition search_song :: "(string \<Rightarrow> pyval option) \<Rightarrow> song \<Rightarrow> search_state \<Rightarrow> search_state" where
  "search_song sp_search s st =
     (let uri1 = search_phase sp_search (query_specific s) PNone;
          st1 = st\<lparr>searches := searches st @ [query_specific s]\<rparr>;
          uri2 = (if \<not> truthy uri1 then search_phase sp_search (query_general s) uri1 else uri1);
          st2 = (if \<not> truthy uri1 then st1\<lparr>searches := searches st1 @ [query_general s]\<rparr>
                 else st1)
      in if truthy uri2
         then st2\<lparr>track_uris := track_uris st2 @ [uri2],
                  songs_found_count := songs_found_count st2 + 1\<rparr>
         else st2\<lparr>not_found_songs :=
                    not_found_songs st2 @ [song_track s @ '' - '' @ song_artist s]\<rparr>)"

text \<open>The loop body of app.py is the same but keeps no list of the songs not found.\<close>

definition search_song_app :: "(string \<Rightarrow> pyval option) \<Rightarrow> song \<Rightarrow> search_state \<Rightarrow> search_state" where
  "search_song_app sp_search s st =
     (let uri1 = search_phase sp_search (query_specific s) PNone;
          st1 = st\<lparr>searches := searches st @ [query_specific s]\<rparr>;
          uri2 = (if \<not> truthy uri1 then search_phase sp_search (query_general s) uri1 else uri1);
          st2 = (if \<not> truthy uri1 then st1\<lparr>searches := searches st1 @ [query_general s]\<rparr>
                 else st1)
      in if truthy uri2
         then st2\<lparr>track_uris := track_uris st2 @ [uri2],
                  songs_found_count := songs_found_count st2 + 1\<rparr>
         else st2)"

text \<open>The \<open>for\<close> loop with its \<open>break\<close>, for a loop body \<open>step\<close> and a target count.\<close>

fun search_loop ::
  "(song \<Rightarrow> search_state \<Rightarrow> search_state) \<Rightarrow> nat \<Rightarrow> song list \<Rightarrow> search_state \<Rightarrow> search_state" where
  "search_loop step target [] st = st"
| "search_loop step target (s # songs) st =
     (if songs_found_count st \<ge> target then st
      else search_loop step target songs (step s st))"

definition initial_search_state :: search_state where
  "initial_search_state =
     \<lparr>track_uris = [], songs_found_count = 0, not_found_songs = [], searches = []\<rparr>"

text \<open>appv2.py stops at \<open>config.PLAYLIST_TARGET_SIZE\<close>, app.py at the literal 10.\<close>

definition create_spotify_playlist_search ::
  "(string \<Rightarrow> pyval option) \<Rightarrow> song list \<Rightarrow> search_state" where
  "create_spotify_playlist_search sp_search songs_to_search =
     search_loop (search_song sp_search) PLAYLIST_TARGET_SIZE songs_to_search initial_search_state"

definition create_spotify_playlist_search_app ::
  "(string \<Rightarrow> pyval option) \<Rightarrow> song list \<Rightarrow> search_state" where
  "create_spotify_playlist_search_app sp_search songs_to_search =
     search_loop (search_song_app sp_search) 10 songs_to_search initial_search_state"

text \<open>
  A phase matches when the search returns and yields a truthy \<open>uri\<close>; a search that
  raises is a non-match.
\<close>

definition phase_match :: "(string \<Rightarrow> pyval option) \<Rightarrow> string \<Rightarrow> pyval option" where
  "phase_match sp_search q =
     (case sp_search q of
        None \<Rightarrow> None
      | Some results \<Rightarrow>
          (case first_track_uri results of
             None \<Rightarrow> None
           | Some uri \<Rightarrow> if truthy uri then Some uri else None))"

text \<open>What one suggestion resolves to, and the queries it costs.\<close>

definition resolved :: "(string \<Rightarrow> pyval option) \<Rightarrow> song \<Rightarrow> pyval list" where
  "resolved sp_search s =
     (case phase_match sp_search (query_specific s) of
        Some uri \<Rightarrow> [uri]
      | None \<Rightarrow>
          (case phase_match sp_search (query_general s) of Some uri \<Rightarrow> [uri] | None \<Rightarrow> []))"

definition queries :: "(string \<Rightarrow> pyval option) \<Rightarrow> song \<Rightarrow> string list" where
  "queries sp_search s =
     (if phase_match sp_search (query_specific s) = None
      then [query_specific s, query_general s]
      else [query_specific s])"

definition step_ok :: "(song \<Rightarrow> search_state \<Rightarrow> search_state) \<Rightarrow> bool" where
  "step_ok step =
     (\<forall>s st. songs_found_count st = length (track_uris st) \<longrightarrow>
        songs_found_count (step s st) = length (track_uris (step s st)) \<and>
        songs_found_count st \<le> songs_found_count (step s st) \<and>
        songs_found_count (step s st) \<le> songs_found_count st + 1)"

text \<open>Examples for the theorems below: a catalog response with one item, a song, a
  catalog that finds every query, and one whose field search raises.\<close>

definition found_response :: pyval where
  "found_response =
     PDict [(''tracks'', PDict [(''items'', PList [PDict [(''uri'', PStr ''spotify:track:1'')]])])]"

definition demo_song :: song where
  "demo_song = \<lparr>song_artist = ''a'', song_track = ''t''\<rparr>"

definition sp_finds_all :: "string \<Rightarrow> pyval option" where
  "sp_finds_all q = Some found_response"

definition sp_specific_raises :: "string \<Rightarrow> pyval option" where
  "sp_specific_raises q = (if q = query_specific demo_song then None else Some found_response)"

section \<open>Genre and artist analysis (\<open>analyze_genres\<close>)\<close>

text \<open>
  The artist lookup is a parameter: \<open>sp_artist artist_id\<close> is the response to
  \<open>sp.artist(artist_id)\<close>, \<open>None\<close> when the call raises. The state holds the three results
  of the function, the set \<open>processed_artists\<close>, and the log of the lookups made, in
  order. A run ends with the state it reached and the exception that left the function,
  if one did (the results are lost then, the lookups were made).
\<close>

record genre_state =
  genre_counter :: "(pyval \<times> nat) list"
  artist_counter :: "(pyval \<times> nat) list"
  genre_by_artist :: "(pyval \<times> pyval list) list"
  processed_artists :: "pyval list"
  lookups :: "pyval list"

definition initial_genre_state :: genre_state where
  "initial_genre_state =
     \<lparr>genre_counter = [], artist_counter = [], genre_by_artist = [],
      processed_artists = [], lookups = []\<rparr>"

text \<open>Iterating a value with \<open>for\<close>: a list gives its elements, a string its characters,
  a dict its keys; \<open>None\<close> and integers are not iterable (\<open>TypeError\<close>).\<close>

fun py_iter :: "pyval \<Rightarrow> pyval list option" where
  "py_iter (PList xs) = Some xs"
| "py_iter (PStr s) = Some (map (\<lambda>c. PStr [c]) s)"
| "py_iter (PDict d) = Some (map (\<lambda>(k, v). PStr k) d)"
| "py_iter PNone = None"
| "py_iter (PInt n) = None"

text \<open>\<open>s.add(x)\<close> on a set kept as a list without repetition.\<close>

definition set_add :: "'a list \<Rightarrow> 'a \<Rightarrow> 'a list" where
  "set_add xs x = (if x \<in> set xs then xs else xs @ [x])"

text \<open>
  The body of the \<open>try\<close> after the lookup: \<open>artist_info.get('genres', [])\<close> and the loop
  over the genres. Anything raised here (a response that is not a dict, genres that are
  not iterable, an unhashable genre) is swallowed by \<open>except Exception\<close>, and what the
  loop did before stays done.
\<close>

fun genres_loop :: "pyval list \<Rightarrow> pyval \<Rightarrow> genre_state \<Rightarrow> genre_state" where
  "genres_loop [] artist_name st = st"
| "genres_loop (genre # genres) artist_name st =
     (if \<not> hashable genre then st
      else genres_loop genres artist_name
             (st\<lparr>genre_counter := counter_inc (genre_counter st) genre,
                 genre_by_artist :=
                   dict_set (genre_by_artist st) genre
                     (set_add (dict_get_default (genre_by_artist st) genre []) artist_name)\<rparr>))"

definition record_genres :: "pyval option \<Rightarrow> pyval \<Rightarrow> genre_state \<Rightarrow> genre_state" where
  "record_genres response artist_name st =
     (case response of
        Some (PDict artist_info) \<Rightarrow>
          (case py_iter (dict_get_default artist_info ''genres'' (PList [])) of
             Some genres \<Rightarrow> genres_loop genres artist_name st
           | None \<Rightarrow> st)
      | _ \<Rightarrow> st)"

text \<open>
  The body of the inner loop of appv2.py for one artist reference. A reference that is
  not a dict or has no truthy \<open>id\<close> is skipped. The occurrence counter is bumped before
  the set \<open>processed_artists\<close> is consulted; an unhashable name or id raises \<open>TypeError\<close>
  outside the \<open>try\<close>.
\<close>

definition artist_step ::
  "(pyval \<Rightarrow> pyval option) \<Rightarrow> pyval \<Rightarrow> genre_state \<Rightarrow> genre_state \<times> error option" where
  "artist_step sp_artist artist st =
     (case artist of
        PDict a \<Rightarrow>
          if \<not> truthy (dict_get a ''id'') then (st, None)
          else
            let artist_id = dict_get a ''id'';
                artist_name = dict_get_default a ''name'' (PStr ''Unknown'')
            in if \<not> hashable artist_name then (st, Some TypeError)
               else
                 let st1 = st\<lparr>artist_counter := counter_inc (artist_counter st) artist_name\<rparr>
                 in if \<not> hashable artist_id then (st1, Some TypeError)
                    else if artist_id \<in> set (processed_artists st1) then (st1, None)
                    else
                      let st2 = st1\<lparr>processed_artists := set_add (processed_artists st1) artist_id,
                                     lookups := lookups st1 @ [artist_id]\<rparr>
                      in (record_genres (sp_artist artist_id) artist_name st2, None)
      | _ \<Rightarrow> (st, None))"

text \<open>
  The body of the inner loop of app.py: \<open>artist['name']\<close> is read outside the \<open>try\<close>
  (\<open>TypeError\<close> on a reference that is not a dict, \<open>KeyError\<close> without the key), there is
  no set of processed artists, and the lookup is made for every reference. A missing
  \<open>id\<close> raises inside the \<open>try\<close>, before the call.
\<close>

definition artist_step_app ::
  "(pyval \<Rightarrow> pyval option) \<Rightarrow> pyval \<Rightarrow> genre_state \<Rightarrow> genre_state \<times> error option" where
  "artist_step_app sp_artist artist st =
     (case artist of
        PDict a \<Rightarrow>
          (case map_of a ''name'' of
             None \<Rightarrow> (st, Some KeyError)
           | Some artist_name \<Rightarrow>
               if \<not> hashable artist_name then (st, Some TypeError)
               else
                 let st1 = st\<lparr>artist_counter := counter_inc (artist_counter st) artist_name\<rparr>
                 in (case map_of a ''id'' of
                       None \<Rightarrow> (st1, None)
                     | Some artist_id \<Rightarrow>
                         let st2 = st1\<lparr>lookups := lookups st1 @ [artist_id]\<rparr>
                         in (record_genres (sp_artist artist_id) artist_name st2, None)))
      | _ \<Rightarrow> (st, Some TypeError))"

text \<open>The inner loop: it stops at the first exception.\<close>

fun artists_loop ::
  "(pyval \<Rightarrow> genre_state \<Rightarrow> genre_state \<times> error option) \<Rightarrow> pyval list \<Rightarrow> genre_state
     \<Rightarrow> genre_state \<times> error option" where
  "artists_loop step [] st = (st, None)"
| "artists_loop step (artist # artists) st =
     (case step artist st of
        (st', Some e) \<Rightarrow> (st', Some e)
      | (st', None) \<Rightarrow> artists_loop step artists st')"

text \<open>The artist references of one track: \<open>track.get('artists', [])\<close> in appv2.py,
  \<open>track.get('track', track).get('artists', [])\<close> in app.py.\<close>

definition track_artists :: "pyval \<Rightarrow> error + pyval list" where
  "track_artists track =
     (case track of
        PDict d \<Rightarrow>
          (case py_iter (dict_get_default d ''artists'' (PList [])) of
             None \<Rightarrow> Inl TypeError
           | Some artists \<Rightarrow> Inr artists)
      | _ \<Rightarrow> Inl AttributeError)"

definition track_artists_app :: "pyval \<Rightarrow> error + pyval list" where
  "track_artists_app track =
     (case track of
        PDict d \<Rightarrow>
          (case dict_get_default d ''track'' track of
             PDict track_obj \<Rightarrow>
               (case py_iter (dict_get_default track_obj ''artists'' (PList [])) of
                  None \<Rightarrow> Inl TypeError
                | Some artists \<Rightarrow> Inr artists)
           | _ \<Rightarrow> Inl AttributeError)
      | _ \<Rightarrow> Inl AttributeError)"

fun tracks_loop ::
  "(pyval \<Rightarrow> error + pyval list) \<Rightarrow> (pyval \<Rightarrow> genre_state \<Rightarrow> genre_state \<times> error option)
     \<Rightarrow> pyval list \<Rightarrow> genre_state \<Rightarrow> genre_state \<times> error option" where
  "tracks_loop artists_of step [] st = (st, None)"
| "tracks_loop artists_of step (track # tracks) st =
     (case artists_of track of
        Inl e \<Rightarrow> (st, Some e)
      | Inr artists \<Rightarrow>
          (case artists_loop step artists st of
             (st', Some e) \<Rightarrow> (st', Some e)
           | (st', None) \<Rightarrow> tracks_loop artists_of step tracks st'))"

definition analyze_genres ::
  "(pyval \<Rightarrow> pyval option) \<Rightarrow> pyval list \<Rightarrow> genre_state \<times> error option" where
  "analyze_genres sp_artist tracks =
     tracks_loop track_artists (artist_step sp_artist) tracks initial_genre_state"

definition analyze_genres_app ::
  "(pyval \<Rightarrow> pyval option) \<Rightarrow> pyval list \<Rightarrow> genre_state \<times> error option" where
  "analyze_genres_app sp_artist tracks =
     tracks_loop track_artists_app (artist_step_app sp_artist) tracks initial_genre_state"

text \<open>
  The claim's words for appv2.py: the names under which the artist references with a
  truthy id appear, one entry per appearance, over all tracks in order.
\<close>

definition counted_name :: "pyval \<Rightarrow> pyval list" where
  "counted_name artist =
     (case artist of
        PDict a \<Rightarrow>
          if truthy (dict_get a ''id'') then [dict_get_default a ''name'' (PStr ''Unknown'')] else []
      | _ \<Rightarrow> [])"

definition appearances :: "pyval list \<Rightarrow> pyval list" where
  "appearances tracks =
     concat (map (\<lambda>track. case track_artists track of
                             Inl e \<Rightarrow> []
                           | Inr artists \<Rightarrow> concat (map counted_name artists)) tracks)"

definition lookups_ok :: "genre_state \<Rightarrow> bool" where
  "lookups_ok st = (distinct (lookups st) \<and> set (lookups st) = set (processed_artists st))"

text \<open>Two tracks by the same artist, and a catalog that knows one genre for everyone.\<close>

definition same_artist_tracks :: "pyval list" where
  "same_artist_tracks =
     [PDict [(''id'', PStr ''t1''), (''artists'', PList [PDict [(''id'', PStr ''a1''), (''name'', PStr ''A'')]])],
      PDict [(''id'', PStr ''t2''), (''artists'', PList [PDict [(''id'', PStr ''a1''), (''name'', PStr ''A'')]])]]"

definition sp_rock :: "pyval \<Rightarrow> pyval option" where
  "sp_rock artist_id = Some (PDict [(''genres'', PList [PStr ''rock''])])"

section \<open>Merging the library and the playlists (\<open>get_all_user_tracks_heavy\<close>)\<close>

text \<open>
  The function fills \<open>all_tracks_dict\<close>, keyed by \<open>track['id']\<close>, from the saved tracks
  and then from the tracks of each playlist. The fetched lists are its inputs here:
  \<open>saved_tracks\<close> is what \<open>get_all_saved_tracks\<close> returned, and each playlist is the list
  that \<open>get_playlist_tracks(playlist['id'])\<close> returned, or \<open>None\<close> when getting it raised.

  The test \<open>if track and track.get('id')\<close> followed by \<open>all_tracks_dict[track['id']] = track\<close>
  gives the key under which a track is stored, \<open>None\<close> when the track is skipped. A truthy
  track that is not a dict has no \<open>get\<close> (\<open>AttributeError\<close>), and a list or a dict as id is
  unhashable (\<open>TypeError\<close>).
\<close>

definition track_key :: "pyval \<Rightarrow> error + pyval option" where
  "track_key track =
     (if \<not> truthy track then Inr None
      else case track of
          PDict d \<Rightarrow>
            if \<not> truthy (dict_get d ''id'') then Inr None
            else if \<not> hashable (dict_get d ''id'') then Inl TypeError
            else Inr (Some (dict_get d ''id''))
        | _ \<Rightarrow> Inl AttributeError)"

text \<open>One \<open>for track in ...\<close> loop: it returns the dict as far as it was filled and the
  exception that stopped it, if any.\<close>

fun merge_tracks ::
  "pyval list \<Rightarrow> (pyval \<times> pyval) list \<Rightarrow> (pyval \<times> pyval) list \<times> error option" where
  "merge_tracks [] all_tracks_dict = (all_tracks_dict, None)"
| "merge_tracks (track # tracks) all_tracks_dict =
     (case track_key track of
        Inl e \<Rightarrow> (all_tracks_dict, Some e)
      | Inr None \<Rightarrow> merge_tracks tracks all_tracks_dict
      | Inr (Some k) \<Rightarrow> merge_tracks tracks (dict_set all_tracks_dict k track))"

text \<open>Phase 3: each playlist is scanned under its own \<open>try\<close>; an exception abandons the
  rest of that playlist, keeps what was stored, and the scan goes on.\<close>

fun merge_playlists ::
  "pyval list option list \<Rightarrow> (pyval \<times> pyval) list \<Rightarrow> (pyval \<times> pyval) list" where
  "merge_playlists [] all_tracks_dict = all_tracks_dict"
| "merge_playlists (playlist # playlists) all_tracks_dict =
     (case playlist of
        None \<Rightarrow> merge_playlists playlists all_tracks_dict
      | Some playlist_tracks \<Rightarrow>
          merge_playlists playlists (fst (merge_tracks playlist_tracks all_tracks_dict)))"

text \<open>Phase 1 runs outside any \<open>try\<close>: an exception there leaves the function. The result
  is \<open>list(all_tracks_dict.values())\<close>.\<close>

definition get_all_user_tracks_heavy :: "pyval list \<Rightarrow> pyval list option list \<Rightarrow> error + pyval list" where
  "get_all_user_tracks_heavy saved_tracks playlists =
     (case merge_tracks saved_tracks [] of
        (all_tracks_dict, Some e) \<Rightarrow> Inl e
      | (all_tracks_dict, None) \<Rightarrow> Inr (map snd (merge_playlists playlists all_tracks_dict)))"

text \<open>
  The claim's words: all sources in the order they are merged, the tracks that are
  well-formed for the merge (skipped or stored, never raising), the distinct non-empty
  ids across the sources, and the last track written under an id.
\<close>

definition all_sources :: "pyval list \<Rightarrow> pyval list option list \<Rightarrow> pyval list" where
  "all_sources saved_tracks playlists =
     saved_tracks @ concat (map (\<lambda>p. case p of None \<Rightarrow> [] | Some ts \<Rightarrow> ts) playlists)"

definition mergeable :: "pyval \<Rightarrow> bool" where
  "mergeable track = (case track_key track of Inl e \<Rightarrow> False | Inr k \<Rightarrow> True)"

definition source_ids :: "pyval list \<Rightarrow> pyval set" where
  "source_ids tracks = {k. \<exists>t \<in> set tracks. track_key t = Inr (Some k)}"

definition last_written :: "pyval list \<Rightarrow> pyval \<Rightarrow> pyval" where
  "last_written tracks k = last (filter (\<lambda>t. track_key t = Inr (Some k)) tracks)"

text \<open>
  What the two fetchers keep of a page of items,
  \<open>[item['track'] for item in items if isinstance(safe_get(item, 'track'), dict) and
  safe_get(item, 'track', 'id')]\<close>: the tracks that are dicts with a truthy id.
\<close>

definition fetched_tracks :: "pyval list \<Rightarrow> pyval list" where
  "fetched_tracks items =
     map (\<lambda>item. safe_get item [''track''] PNone)
       (filter (\<lambda>item. isinstance_dict (safe_get item [''track''] PNone) \<and>
                       truthy (safe_get item [''track'', ''id''] PNone)) items)"

chapter \<open>Properties\<close>

section \<open>Properties of the track sanitizer\<close>

subsection \<open>Dictionary and patching lemmas\<close>

lemma map_of_dict_set: "map_of (dict_set d k v) = (map_of d)(k \<mapsto> v)"
  by (induction d) (auto simp: fun_eq_iff)

lemma dict_get_set: "dict_get (dict_set d k v) k' = (if k' = k then v else dict_get d k')"
  by (simp add: dict_get_def dict_get_default_def map_of_dict_set)

lemma dict_in_set: "dict_in k' (dict_set d k v) = (k' = k \<or> dict_in k' d)"
  by (simp add: dict_in_def map_of_dict_set)

lemma dict_in_get: "truthy (dict_get d k) \<Longrightarrow> dict_in k d"
  by (auto simp: dict_in_def dict_get_def dict_get_default_def split: option.splits)

lemmas patch_defs = patch_track_def patch_name_def patch_artists_def patch_album_def
  patch_popularity_def placeholder_name_def placeholder_artists_def placeholder_album_def

lemma patch_track_fields:
  assumes "truthy (dict_get t ''id'')"
  shows "truthy (dict_get (fst (patch_track t)) ''id'')"
    and "truthy (dict_get (fst (patch_track t)) ''name'')"
    and "nonempty_list (dict_get (fst (patch_track t)) ''artists'')"
    and "truthy (dict_get (fst (patch_track t)) ''album'')"
    and "isinstance_dict (dict_get (fst (patch_track t)) ''album'')"
    and "dict_in ''popularity'' (fst (patch_track t))"
    and "dict_get (fst (patch_track t)) ''popularity'' =
           (if dict_in ''popularity'' t then dict_get t ''popularity'' else PInt 0)"
    and "dict_get (fst (patch_track t)) ''track'' = dict_get t ''track''"
  using assms
  by (auto simp: patch_defs dict_get_set dict_in_set nonempty_list_def
      split: pyval.splits list.splits)

lemma patch_track_clean:
  assumes "truthy (dict_get t ''name'')" "nonempty_list (dict_get t ''artists'')"
    "truthy (dict_get t ''album'')" "isinstance_dict (dict_get t ''album'')"
    "dict_in ''popularity'' t"
  shows "patch_track t = (t, False)"
  using assms
  by (auto simp: patch_defs nonempty_list_def split: pyval.splits list.splits)

lemma sanitize_item_emitted:
  "sanitize_item item s =
     (case emitted item of
        None \<Rightarrow> s\<lparr>invalid_count := invalid_count s + 1\<rparr>
      | Some (t, p) \<Rightarrow> s\<lparr>clean_tracks := clean_tracks s @ [t],
                          patched_count := (if p then patched_count s + 1 else patched_count s)\<rparr>)"
  by (auto simp: sanitize_item_def emitted_def split: option.splits prod.splits)

lemma sanitize_loop_clean:
  "clean_tracks (sanitize_loop items s) = clean_tracks s @ map fst (List.map_filter emitted items)"
  by (induction items arbitrary: s)
     (auto simp: sanitize_item_emitted split: option.splits)

lemma sanitize_loop_invalid:
  "invalid_count (sanitize_loop items s) =
     invalid_count s + length (filter (\<lambda>i. emitted i = None) items)"
  by (induction items arbitrary: s)
     (auto simp: sanitize_item_emitted split: option.splits)

lemma sanitize_loop_patched:
  "patched_count (sanitize_loop items s) =
     patched_count s + length (filter snd (List.map_filter emitted items))"
  by (induction items arbitrary: s)
     (auto simp: sanitize_item_emitted split: option.splits)

lemma sanitize_track_list_loop:
  "sanitize_track_list tracks =
     sanitize_loop tracks \<lparr>clean_tracks = [], invalid_count = 0, patched_count = 0\<rparr>"
  by (simp add: sanitize_track_list_def)

lemma length_map_filter_le: "length (List.map_filter f xs) \<le> length xs"
  by (induction xs) (auto simp: split: option.splits)

lemma set_map_filter: "set (List.map_filter f xs) = {y. \<exists>x \<in> set xs. f x = Some y}"
  by (induction xs) (auto simp: split: option.splits)

lemma emitted_resanitize:
  assumes "emitted item = Some (t, p)" "\<not> isinstance_dict (track_field t ''track'')"
  shows "emitted t = Some (t, False)"
proof -
  from assms(1) obtain d where d: "extract_track_obj item = Some d" "truthy (dict_get d ''id'')"
      "t = PDict (fst (patch_track d))"
    by (auto simp: emitted_def split: option.splits if_splits)
  let ?d' = "fst (patch_track d)"
  note f = patch_track_fields[OF d(2)]
  have "dict_in ''id'' ?d'" using f(1) by (rule dict_in_get)
  moreover have "\<not> isinstance_dict (dict_get ?d' ''track'')"
    using assms(2) d(3) by (simp add: track_field_def)
  ultimately have ex: "extract_track_obj t = Some ?d'"
    by (simp add: extract_track_obj_def d(3))
  have cl: "patch_track ?d' = (?d', False)"
    by (rule patch_track_clean) (rule f)+
  have "?d' \<noteq> []" using f(1) by (auto simp: dict_get_def dict_get_default_def)
  then show ?thesis using ex cl f(1) by (simp add: emitted_def d(3))
qed

subsection \<open>What the sanitizer guarantees\<close>

text \<open>
  Claim C1, as the code has it. The output is no longer than the input, and every emitted
  track has a truthy \<open>id\<close>, a truthy \<open>name\<close>, a non-empty \<open>artists\<close> list and a
  \<open>popularity\<close> key. The value under that key is \<open>0\<close> when the raw record had no such key
  and the raw value, unchanged and unchecked, when it had one: the sanitizer has a single
  validation rule (the \<open>id\<close>) and never compares \<open>popularity\<close> with 0 or 100.
\<close>

theorem sanitize_track_list_invariants:
  "length (clean_tracks (sanitize_track_list tracks)) \<le> length tracks \<and>
   (\<forall>t \<in> set (clean_tracks (sanitize_track_list tracks)).
      truthy (track_field t ''id'') \<and> truthy (track_field t ''name'') \<and>
      nonempty_list (track_field t ''artists'') \<and> has_field t ''popularity'' \<and>
      (\<exists>item \<in> set tracks. \<exists>raw. extract_track_obj item = Some raw \<and>
         t = PDict (fst (patch_track raw)) \<and>
         track_field t ''popularity'' =
           (if dict_in ''popularity'' raw then dict_get raw ''popularity'' else PInt 0)))"
proof (intro conjI ballI)
  show "length (clean_tracks (sanitize_track_list tracks)) \<le> length tracks"
    by (simp add: sanitize_track_list_loop sanitize_loop_clean length_map_filter_le)
next
  fix t assume "t \<in> set (clean_tracks (sanitize_track_list tracks))"
  then obtain item p where item: "item \<in> set tracks" "emitted item = Some (t, p)"
    by (auto simp: sanitize_track_list_loop sanitize_loop_clean set_map_filter)
  then obtain raw where raw: "extract_track_obj item = Some raw" "truthy (dict_get raw ''id'')"
      "t = PDict (fst (patch_track raw))"
    by (auto simp: emitted_def split: option.splits if_splits)
  note f = patch_track_fields[OF raw(2)]
  show "truthy (track_field t ''id'')" using f(1) by (simp add: raw(3) track_field_def)
  show "truthy (track_field t ''name'')" using f(2) by (simp add: raw(3) track_field_def)
  show "nonempty_list (track_field t ''artists'')" using f(3) by (simp add: raw(3) track_field_def)
  show "has_field t ''popularity''" using f(6) by (simp add: raw(3) has_field_def)
  show "\<exists>item \<in> set tracks. \<exists>raw. extract_track_obj item = Some raw \<and>
         t = PDict (fst (patch_track raw)) \<and>
         track_field t ''popularity'' =
           (if dict_in ''popularity'' raw then dict_get raw ''popularity'' else PInt 0)"
    using item(1) raw(1,3) f(7) by (auto simp: track_field_def)
qed

text \<open>The definitions that evaluate the sanitizer on a concrete input.\<close>

lemmas eval_defs = sanitize_track_list_def sanitize_item_def extract_track_obj_def patch_defs
  dict_get_def dict_get_default_def dict_in_def track_field_def has_field_def nonempty_list_def
  popularity_in_range_def

text \<open>The theorem at a two-item input: a non-mapping, which is dropped, and a bare record.\<close>

theorem sanitize_track_list_invariants_witness:
  "clean_tracks (sanitize_track_list
      [PInt 1, PDict [(''id'', PStr ''t1''), (''popularity'', PInt 55)]]) =
     [PDict [(''id'', PStr ''t1''), (''popularity'', PInt 55), (''name'', placeholder_name),
             (''artists'', placeholder_artists), (''album'', placeholder_album)]] \<and>
   truthy (track_field (PDict [(''id'', PStr ''t1''), (''popularity'', PInt 55),
             (''name'', placeholder_name), (''artists'', placeholder_artists),
             (''album'', placeholder_album)]) ''name'') \<and>
   has_field (PDict [(''id'', PStr ''t1''), (''popularity'', PInt 55),
             (''name'', placeholder_name), (''artists'', placeholder_artists),
             (''album'', placeholder_album)]) ''popularity''"
  using sanitize_track_list_invariants
    [of "[PInt 1, PDict [(''id'', PStr ''t1''), (''popularity'', PInt 55)]]"]
  by (simp add: eval_defs)

text \<open>
  Claim C1 as stated fails: a raw record with \<open>popularity = 500\<close> is emitted with
  \<open>popularity = 500\<close>, outside 0..100.
\<close>

theorem sanitize_popularity_counterexample:
  "clean_tracks (sanitize_track_list [PDict [(''id'', PStr ''t1''), (''popularity'', PInt 500)]]) =
     [PDict [(''id'', PStr ''t1''), (''popularity'', PInt 500), (''name'', placeholder_name),
             (''artists'', placeholder_artists), (''album'', placeholder_album)]] \<and>
   \<not> popularity_in_range (track_field (PDict [(''id'', PStr ''t1''), (''popularity'', PInt 500),
             (''name'', placeholder_name), (''artists'', placeholder_artists),
             (''album'', placeholder_album)]) ''popularity'')"
  by (simp add: eval_defs)

text \<open>
  Claim C5, as the code has it. When no emitted track carries a \<open>track\<close> field that is
  itself a mapping (no track object of the catalog does), sanitizing the output again
  returns the same list, drops nothing and patches nothing.
\<close>

theorem sanitize_idempotent:
  assumes "\<forall>t \<in> set (clean_tracks (sanitize_track_list tracks)).
             \<not> isinstance_dict (track_field t ''track'')"
  shows "sanitize_track_list (clean_tracks (sanitize_track_list tracks)) =
           \<lparr>clean_tracks = clean_tracks (sanitize_track_list tracks),
            invalid_count = 0, patched_count = 0\<rparr>"
proof -
  let ?out = "clean_tracks (sanitize_track_list tracks)"
  have em: "emitted t = Some (t, False)" if "t \<in> set ?out" for t
  proof -
    from that obtain item p where "emitted item = Some (t, p)"
      by (auto simp: sanitize_track_list_loop sanitize_loop_clean set_map_filter)
    moreover have "\<not> isinstance_dict (track_field t ''track'')" using assms that by blast
    ultimately show ?thesis by (rule emitted_resanitize)
  qed
  have mf: "List.map_filter emitted xs = map (\<lambda>t. (t, False)) xs"
    if "\<forall>t \<in> set xs. emitted t = Some (t, False)" for xs
    using that by (induction xs) auto
  have m: "List.map_filter emitted ?out = map (\<lambda>t. (t, False)) ?out"
    by (rule mf) (simp add: em)
  have "filter (\<lambda>i. emitted i = None) ?out = []"
    by (auto simp: filter_empty_conv em)
  then show ?thesis
    by (simp add: sanitize_track_list_loop[of ?out] sanitize_loop_clean sanitize_loop_invalid
        sanitize_loop_patched m o_def filter_empty_conv)
qed

text \<open>The theorem at the two-item input used above.\<close>

theorem sanitize_idempotent_witness:
  "\<not> isinstance_dict (track_field (PDict [(''id'', PStr ''t1''), (''popularity'', PInt 55),
       (''name'', placeholder_name), (''artists'', placeholder_artists),
       (''album'', placeholder_album)]) ''track'') \<and>
   sanitize_track_list (clean_tracks (sanitize_track_list
       [PInt 1, PDict [(''id'', PStr ''t1''), (''popularity'', PInt 55)]])) =
     \<lparr>clean_tracks = [PDict [(''id'', PStr ''t1''), (''popularity'', PInt 55),
          (''name'', placeholder_name), (''artists'', placeholder_artists),
          (''album'', placeholder_album)]],
      invalid_count = 0, patched_count = 0\<rparr>"
  using sanitize_idempotent [of "[PInt 1, PDict [(''id'', PStr ''t1''), (''popularity'', PInt 55)]]"]
  by (simp add: eval_defs)

text \<open>
  Claim C5 as stated fails: a wrapper whose track object has a \<open>track\<close> field of its own
  is emitted as that track object, and the second pass unwraps it once more, so it emits
  a different track and counts it as patched.
\<close>

theorem sanitize_idempotent_counterexample:
  "sanitize_track_list (clean_tracks (sanitize_track_list
      [PDict [(''track'', PDict [(''id'', PStr ''a''), (''track'', PDict [(''id'', PStr ''b'')])])]])) =
     \<lparr>clean_tracks = [PDict [(''id'', PStr ''b''), (''name'', placeholder_name),
          (''artists'', placeholder_artists), (''album'', placeholder_album),
          (''popularity'', PInt 0)]],
      invalid_count = 0, patched_count = 1\<rparr> \<and>
   clean_tracks (sanitize_track_list
      [PDict [(''track'', PDict [(''id'', PStr ''a''), (''track'', PDict [(''id'', PStr ''b'')])])]]) =
     [PDict [(''id'', PStr ''a''), (''track'', PDict [(''id'', PStr ''b'')]),
          (''name'', placeholder_name), (''artists'', placeholder_artists),
          (''album'', placeholder_album), (''popularity'', PInt 0)]]"
  by (simp add: eval_defs)

section \<open>Properties of the decade histogram\<close>

subsection \<open>Lemmas on counters and the decade loop\<close>

declare nat_digits.simps [simp del]

lemma counter_get_inc:
  "counter_get (counter_inc c k) k' = (if k' = k then counter_get c k + 1 else counter_get c k')"
  by (simp add: counter_get_def counter_inc_def dict_get_default_def map_of_dict_set)

lemma release_year_spec:
  "release_year hs (safe_get track [''album'', ''release_date''] (PStr '''')) = Inr r
     \<Longrightarrow> r = spec_year track"
  by (auto simp: release_year_def spec_year_def split: pyval.splits if_splits)

lemma decade_loop_counts:
  "decade_loop hs tracks c = Inr h \<Longrightarrow>
     counter_get h l = counter_get c l +
       length (filter (\<lambda>t. \<exists>y. spec_year t = Some y \<and> decade_label (spec_decade y) = l) tracks)"
proof (induction tracks arbitrary: c)
  case Nil
  then show ?case by simp
next
  case (Cons t ts)
  show ?case
  proof (cases "release_year hs (safe_get t [''album'', ''release_date''] (PStr ''''))")
    case (Inl e)
    with Cons.prems show ?thesis by simp
  next
    case (Inr r)
    note sy = release_year_spec[OF Inr]
    show ?thesis
    proof (cases r)
      case None
      with Inr Cons.prems have "decade_loop hs ts c = Inr h" by simp
      moreover from sy None have "spec_year t = None" by simp
      ultimately show ?thesis using Cons.IH[of c] by simp
    next
      case (Some y)
      with Inr Cons.prems
      have "decade_loop hs ts (counter_inc c (decade_label ((y div 10) * 10))) = Inr h" by simp
      moreover from sy Some have "spec_year t = Some y" by simp
      ultimately show ?thesis
        using Cons.IH[of "counter_inc c (decade_label ((y div 10) * 10))"]
        by (auto simp: counter_get_inc spec_decade_def)
    qed
  qed
qed

lemma decade_loop_total:
  "list_all (\<lambda>t. case safe_get t [''album'', ''release_date''] (PStr '''') of
                   PNone \<Rightarrow> True | PStr s \<Rightarrow> True | _ \<Rightarrow> False) tracks
     \<Longrightarrow> \<exists>h. decade_loop hs tracks c = Inr h"
proof (induction tracks arbitrary: c)
  case Nil
  then show ?case by simp
next
  case (Cons t ts)
  then show ?case
    by (auto simp: release_year_def split: pyval.splits option.splits sum.splits)
qed

lemma set_fst_dict_set: "fst ` set (dict_set c k v) = insert k (fst ` set c)"
  by (simp add: dom_map_of_conv_image_fst[symmetric] map_of_dict_set)

lemma digit_chars:
  "char_of (48::nat) = CHR 0x30" "char_of (49::nat) = CHR 0x31" "char_of (50::nat) = CHR 0x32"
  "char_of (51::nat) = CHR 0x33" "char_of (52::nat) = CHR 0x34" "char_of (53::nat) = CHR 0x35"
  "char_of (54::nat) = CHR 0x36" "char_of (55::nat) = CHR 0x37" "char_of (56::nat) = CHR 0x38"
  "char_of (57::nat) = CHR 0x39"
  by code_simp+

lemma decade_loop_keys:
  "decade_loop hs tracks c = Inr h \<Longrightarrow>
     fst ` set h = fst ` set c \<union>
       {decade_label (spec_decade y) | t y. t \<in> set tracks \<and> spec_year t = Some y}"
proof (induction tracks arbitrary: c)
  case Nil
  then show ?case by simp
next
  case (Cons t ts)
  show ?case
  proof (cases "release_year hs (safe_get t [''album'', ''release_date''] (PStr ''''))")
    case (Inl e)
    with Cons.prems show ?thesis by simp
  next
    case (Inr r)
    note sy = release_year_spec[OF Inr]
    show ?thesis
    proof (cases r)
      case None
      with Inr Cons.prems have "decade_loop hs ts c = Inr h" by simp
      moreover from sy None have "spec_year t = None" by simp
      ultimately show ?thesis using Cons.IH[of c] by auto
    next
      case (Some y)
      with Inr Cons.prems
      have "decade_loop hs ts (counter_inc c (decade_label ((y div 10) * 10))) = Inr h" by simp
      moreover from sy Some have "spec_year t = Some y" by simp
      ultimately show ?thesis
        using Cons.IH[of "counter_inc c (decade_label ((y div 10) * 10))"]
        by (auto simp: counter_inc_def set_fst_dict_set spec_decade_def)
    qed
  qed
qed

text \<open>
  The decade loop of appv2.py against the spec's description: when the function returns,
  every bucket label comes from a track with a qualifying release date, and each label
  counts exactly the tracks whose qualifying year falls in its decade. It returns whenever
  every release date is a string or absent.
\<close>

lemma get_decade_distribution_spec:
  assumes "get_decade_distribution hs tracks = Inr h"
  shows "fst ` set h = {decade_label (spec_decade y) | t y. t \<in> set tracks \<and> spec_year t = Some y}"
    and "counter_get h l =
      length (filter (\<lambda>t. \<exists>y. spec_year t = Some y \<and> decade_label (spec_decade y) = l) tracks)"
  using decade_loop_keys[of hs tracks "[]" h] decade_loop_counts[of hs tracks "[]" h l] assms
  by (simp_all add: get_decade_distribution_def counter_get_def dict_get_default_def)

lemma get_decade_distribution_returns:
  assumes "list_all (\<lambda>t. case safe_get t [''album'', ''release_date''] (PStr '''') of
                   PNone \<Rightarrow> True | PStr s \<Rightarrow> True | _ \<Rightarrow> False) tracks"
  shows "\<exists>h. get_decade_distribution hs tracks = Inr h"
  using decade_loop_total[OF assms] by (simp add: get_decade_distribution_def)

lemmas decade_eval_defs = get_decade_distribution_def get_decade_distribution_app_def
  release_date_app_def release_year_app_def release_year_def py_int_def py_strip_def
  py_unsigned_def py_isspace_def py_isdigit_def digit_value_def decade_label_def py_str_int_def
  counter_inc_def counter_get_def dict_get_default_def nat_digits.simps digit_chars

text \<open>
  Claim C4 fails on app.py: a 3-character release date is bucketed. The function there
  tests only \<open>if release_date\<close>, so \<open>int("199")\<close> succeeds and the histogram gets the
  bucket of the decade 190; the function of appv2.py, with its length test, skips the
  same track.
\<close>

theorem decade_app_short_date:
  "get_decade_distribution_app [PDict [(''album'', PDict [(''release_date'', PStr ''199'')])]] =
     Inr [(''190'ler'', 1)] \<and>
   get_decade_distribution False [PDict [(''album'', PDict [(''release_date'', PStr ''199'')])]] =
     Inr [] \<and>
   get_decade_distribution True [PDict [(''album'', PDict [(''release_date'', PStr ''199'')])]] =
     Inr []"
  by (simp add: decade_eval_defs)

text \<open>
  Claim C9, as the code has it. Sanitizing the scenario's item emits one track, counted
  as patched: \<open>name\<close> and \<open>artists\<close> are the placeholders, the album is the item's and
  \<open>popularity\<close> is still 80. The decade histogram over the result has the single entry
  \<open>1990'ler\<close> (the decade with the Turkish plural suffix, not \<open>1990's\<close>) with count 1.
\<close>

theorem scenario_sanitize_decades:
  "sanitize_track_list [scenario_item] =
     \<lparr>clean_tracks = [scenario_track], invalid_count = 0, patched_count = 1\<rparr> \<and>
   track_field scenario_track ''name'' = placeholder_name \<and>
   track_field scenario_track ''artists'' = placeholder_artists \<and>
   track_field scenario_track ''popularity'' = PInt 80 \<and>
   track_field scenario_track ''album'' = PDict [(''release_date'', PStr ''1994-03-01'')] \<and>
   get_decade_distribution hs (clean_tracks (sanitize_track_list [scenario_item])) =
     Inr [(''1990'ler'', 1)]"
  by (simp add: scenario_item_def scenario_track_def eval_defs decade_eval_defs)

text \<open>The scenario on a Python whose slices are hashable (3.12 and later).\<close>

theorem scenario_sanitize_decades_witness:
  "get_decade_distribution True (clean_tracks (sanitize_track_list [scenario_item])) =
     Inr [(''1990'ler'', 1)]"
  using scenario_sanitize_decades [of True] by blast

text \<open>Claim C9 as stated fails: the histogram's label is not \<open>1990's\<close>.\<close>

theorem scenario_label_counterexample:
  "get_decade_distribution False (clean_tracks (sanitize_track_list [scenario_item])) \<noteq>
     Inr [(''1990's'', 1)] \<and>
   get_decade_distribution True (clean_tracks (sanitize_track_list [scenario_item])) \<noteq>
     Inr [(''1990's'', 1)]"
  by (simp add: scenario_item_def eval_defs decade_eval_defs)

subsection \<open>The placeholder album and the 1900s bucket\<close>

lemma patch_track_album:
  assumes "\<not> dict_in ''album'' raw \<or> \<not> isinstance_dict (dict_get raw ''album'')"
  shows "dict_get (fst (patch_track raw)) ''album'' = placeholder_album"
proof -
  have "\<not> truthy (dict_get raw ''album'') \<or> \<not> isinstance_dict (dict_get raw ''album'')"
    using assms by (auto simp: dict_in_def dict_get_def dict_get_default_def split: option.splits)
  then show ?thesis
    by (auto simp: patch_defs dict_get_set dict_in_set)
qed

lemma placeholder_album_year:
  assumes "track_field t ''album'' = placeholder_album"
  shows "release_year hs (safe_get t [''album'', ''release_date''] (PStr '''')) = Inr (Some 1900)"
proof -
  obtain d where d: "t = PDict d" "dict_get d ''album'' = placeholder_album"
    using assms by (cases t) (auto simp: track_field_def placeholder_album_def)
  then have "map_of d ''album'' = Some placeholder_album"
    by (auto simp: dict_get_def dict_get_default_def placeholder_album_def split: option.splits)
  then have "safe_get t [''album'', ''release_date''] (PStr '''') = PStr ''1900''"
    by (simp add: d(1) dict_get_default_def placeholder_album_def)
  then show ?thesis by (simp add: decade_eval_defs)
qed

lemma label_1900: "decade_label ((1900 div 10) * 10) = ''1900'ler''"
  by (simp add: decade_eval_defs)

lemma decade_loop_step_1900:
  assumes "track_field t ''album'' = placeholder_album"
  shows "decade_loop hs (t # ts) c = decade_loop hs ts (counter_inc c ''1900'ler'')"
proof -
  have y: "release_year hs (safe_get t [''album'', ''release_date''] (PStr '''')) = Inr (Some 1900)"
    using assms by (rule placeholder_album_year)
  show ?thesis
    by (simp only: decade_loop.simps y sum.case option.case label_1900)
qed

lemma decade_loop_1900:
  assumes "\<forall>t \<in> set ts. track_field t ''album'' = placeholder_album"
  shows "decade_loop hs ts [(''1900'ler'', n)] = Inr [(''1900'ler'', n + length ts)]"
  using assms
proof (induction ts arbitrary: n)
  case Nil
  then show ?case by simp
next
  case (Cons t ts)
  have c: "counter_inc [(''1900'ler'', n)] ''1900'ler'' = [(''1900'ler'', Suc n)]"
    by (simp add: counter_inc_def counter_get_def dict_get_default_def)
  from Cons.prems have t: "track_field t ''album'' = placeholder_album"
    and ts: "\<forall>t \<in> set ts. track_field t ''album'' = placeholder_album" by simp_all
  show ?case
    by (simp only: decade_loop_step_1900[OF t] c Cons.IH[OF ts]) simp
qed

lemma get_decade_distribution_1900:
  assumes "\<forall>t \<in> set ts. track_field t ''album'' = placeholder_album"
  shows "get_decade_distribution hs ts = Inr (if ts = [] then [] else [(''1900'ler'', length ts)])"
proof (cases ts)
  case Nil
  then show ?thesis by (simp add: get_decade_distribution_def)
next
  case (Cons t ts')
  have c: "counter_inc [] ''1900'ler'' = [(''1900'ler'', Suc 0)]"
    by (simp add: counter_inc_def counter_get_def dict_get_default_def)
  from assms Cons have t: "track_field t ''album'' = placeholder_album"
    and ts: "\<forall>t \<in> set ts'. track_field t ''album'' = placeholder_album" by simp_all
  have "decade_loop hs (t # ts') [] = Inr [(''1900'ler'', Suc 0 + length ts')]"
    by (simp only: decade_loop_step_1900[OF t] c decade_loop_1900[OF ts])
  then show ?thesis by (simp add: get_decade_distribution_def Cons)
qed

text \<open>
  The special case of a list in which every extracted track object lacks a mapping album:
  every emitted track carries the placeholder album and the histogram is the single bucket
  \<open>1900'ler\<close> with all of them.
\<close>

lemma placeholder_album_only:
  assumes "\<forall>item \<in> set items. \<forall>raw. extract_track_obj item = Some raw \<longrightarrow>
             \<not> dict_in ''album'' raw \<or> \<not> isinstance_dict (dict_get raw ''album'')"
  shows "(\<forall>t \<in> set (clean_tracks (sanitize_track_list items)).
            track_field t ''album'' = placeholder_album \<and>
            safe_get t [''album'', ''release_date''] PNone = PStr ''1900'') \<and>
         get_decade_distribution hs (clean_tracks (sanitize_track_list items)) =
           Inr (if clean_tracks (sanitize_track_list items) = [] then []
                else [(''1900'ler'', length (clean_tracks (sanitize_track_list items)))])"
proof -
  let ?out = "clean_tracks (sanitize_track_list items)"
  have alb: "track_field t ''album'' = placeholder_album" if "t \<in> set ?out" for t
  proof -
    from that obtain item p where item: "item \<in> set items" "emitted item = Some (t, p)"
      by (auto simp: sanitize_track_list_loop sanitize_loop_clean set_map_filter)
    then obtain raw where raw: "extract_track_obj item = Some raw" "t = PDict (fst (patch_track raw))"
      by (auto simp: emitted_def split: option.splits if_splits)
    with assms item(1) have "\<not> dict_in ''album'' raw \<or> \<not> isinstance_dict (dict_get raw ''album'')"
      by blast
    then show ?thesis by (simp add: raw(2) track_field_def patch_track_album)
  qed
  have rd: "safe_get t [''album'', ''release_date''] PNone = PStr ''1900''"
    if h: "track_field t ''album'' = placeholder_album" for t
  proof -
    obtain d where d: "t = PDict d" "dict_get d ''album'' = placeholder_album"
      using h by (cases t) (auto simp: track_field_def placeholder_album_def)
    then have "map_of d ''album'' = Some placeholder_album"
      by (auto simp: dict_get_def dict_get_default_def placeholder_album_def split: option.splits)
    then show ?thesis by (simp add: d(1) dict_get_default_def placeholder_album_def)
  qed
  from alb have "\<forall>t \<in> set ?out. track_field t ''album'' = placeholder_album" by blast
  from get_decade_distribution_1900[OF this] alb rd show ?thesis by blast
qed

lemma placeholder_release_date:
  assumes "track_field t ''album'' = placeholder_album"
  shows "safe_get t [''album'', ''release_date''] dflt = PStr ''1900''"
proof -
  obtain d where d: "t = PDict d" "dict_get d ''album'' = placeholder_album"
    using assms by (cases t) (auto simp: track_field_def placeholder_album_def)
  then have "map_of d ''album'' = Some placeholder_album"
    by (auto simp: dict_get_def dict_get_default_def placeholder_album_def split: option.splits)
  then show ?thesis by (simp add: d(1) dict_get_default_def placeholder_album_def)
qed

lemma placeholder_in_1900s:
  assumes "track_field t ''album'' = placeholder_album"
  shows "in_1900s t"
proof -
  have "Some 1900 = spec_year t"
    using placeholder_album_year[OF assms, of False] by (rule release_year_spec)
  then have "spec_year t = Some 1900" by simp
  moreover have "decade_label (spec_decade 1900) = ''1900'ler''"
    unfolding spec_decade_def by (rule label_1900)
  ultimately show ?thesis by (simp only: in_1900s_def option.case)
qed

lemma kept_without_album_emitted:
  assumes "extract_track_obj item = Some raw" "truthy (PDict raw)" "truthy (dict_get raw ''id'')"
  shows "emitted item = Some (PDict (fst (patch_track raw)), snd (patch_track raw))"
  using assms by (simp add: emitted_def)

lemma album_missing_patched:
  assumes "album_missing raw"
  shows "track_field (PDict (fst (patch_track raw))) ''album'' = placeholder_album"
  using assms by (simp add: album_missing_def track_field_def patch_track_album)

lemma kept_without_album_counted:
  "length (filter kept_without_album items)
     \<le> length (filter in_1900s (map fst (List.map_filter emitted items)))"
proof (induction items)
  case Nil
  then show ?case by (simp add: List.map_filter_simps)
next
  case (Cons item items)
  show ?case
  proof (cases "kept_without_album item")
    case True
    then obtain raw where raw: "extract_track_obj item = Some raw" "truthy (PDict raw)"
        "truthy (dict_get raw ''id'')" "album_missing raw"
      by (auto simp: kept_without_album_def split: option.splits)
    have e: "emitted item = Some (PDict (fst (patch_track raw)), snd (patch_track raw))"
      using raw(1-3) by (rule kept_without_album_emitted)
    have "in_1900s (PDict (fst (patch_track raw)))"
      using album_missing_patched[OF raw(4)] by (rule placeholder_in_1900s)
    with True e Cons.IH show ?thesis by (simp add: List.map_filter_simps)
  next
    case False
    with Cons.IH show ?thesis
      by (cases "emitted item") (auto simp: List.map_filter_simps)
  qed
qed

lemma in_1900s_spec:
  "in_1900s t = (\<exists>y. spec_year t = Some y \<and> decade_label (spec_decade y) = ''1900'ler'')"
  by (simp add: in_1900s_def split: option.splits)

text \<open>
  Claim C10. Take any list of raw items, of whatever mix. For every item of the list that
  the sanitizer keeps and whose track object has no \<open>album\<close> field or has one that is not
  a mapping, the emitted track is in the sanitized list and carries the placeholder album,
  whose release date is \<open>1900\<close>; the step of the decade loop at such a track adds one to the
  bucket \<open>1900'ler\<close>, whatever the counter and the tracks after it, so the track is not
  skipped as date-less. When the histogram over the whole sanitized list is returned, its
  bucket \<open>1900'ler\<close> counts exactly the sanitized tracks whose qualifying year falls in that
  decade, hence at least one for each such item of the list, repeated items included. The
  histogram is returned whenever every release date in the sanitized list is a string or
  absent; the placeholder's is a string.
\<close>

theorem placeholder_album_counted:
  "(\<forall>item \<in> set items. \<forall>raw.
      extract_track_obj item = Some raw \<longrightarrow> truthy (PDict raw) \<longrightarrow>
      truthy (dict_get raw ''id'') \<longrightarrow> album_missing raw \<longrightarrow>
        PDict (fst (patch_track raw)) \<in> set (clean_tracks (sanitize_track_list items)) \<and>
        track_field (PDict (fst (patch_track raw))) ''album'' = placeholder_album \<and>
        safe_get (PDict (fst (patch_track raw))) [''album'', ''release_date''] (PStr '''') =
          PStr ''1900'' \<and>
        in_1900s (PDict (fst (patch_track raw))) \<and>
        (\<forall>ts c. decade_loop hs (PDict (fst (patch_track raw)) # ts) c =
                  decade_loop hs ts (counter_inc c ''1900'ler''))) \<and>
   (\<forall>h. get_decade_distribution hs (clean_tracks (sanitize_track_list items)) = Inr h \<longrightarrow>
      counter_get h ''1900'ler'' =
        length (filter in_1900s (clean_tracks (sanitize_track_list items))) \<and>
      length (filter kept_without_album items) \<le> counter_get h ''1900'ler'') \<and>
   (list_all (\<lambda>t. case safe_get t [''album'', ''release_date''] (PStr '''') of
                     PNone \<Rightarrow> True | PStr s \<Rightarrow> True | _ \<Rightarrow> False)
        (clean_tracks (sanitize_track_list items)) \<longrightarrow>
      (\<exists>h. get_decade_distribution hs (clean_tracks (sanitize_track_list items)) = Inr h))"
proof -
  let ?out = "clean_tracks (sanitize_track_list items)"
  have out: "?out = map fst (List.map_filter emitted items)"
    by (simp add: sanitize_track_list_loop sanitize_loop_clean)
  have item: "PDict (fst (patch_track raw)) \<in> set ?out \<and>
        track_field (PDict (fst (patch_track raw))) ''album'' = placeholder_album \<and>
        safe_get (PDict (fst (patch_track raw))) [''album'', ''release_date''] (PStr '''') =
          PStr ''1900'' \<and>
        in_1900s (PDict (fst (patch_track raw))) \<and>
        (\<forall>ts c. decade_loop hs (PDict (fst (patch_track raw)) # ts) c =
                  decade_loop hs ts (counter_inc c ''1900'ler''))"
    if i: "item \<in> set items" and r: "extract_track_obj item = Some raw"
      and ne: "truthy (PDict raw)" and id: "truthy (dict_get raw ''id'')"
      and am: "album_missing raw" for item raw
  proof -
    let ?t = "PDict (fst (patch_track raw))"
    have "emitted item = Some (?t, snd (patch_track raw))"
      using r ne id by (rule kept_without_album_emitted)
    with i have "(?t, snd (patch_track raw)) \<in> set (List.map_filter emitted items)"
      by (auto simp: set_map_filter)
    then have "fst (?t, snd (patch_track raw)) \<in> fst ` set (List.map_filter emitted items)"
      by (rule imageI)
    then have m: "?t \<in> set ?out" by (simp add: out)
    have a: "track_field ?t ''album'' = placeholder_album"
      using am by (rule album_missing_patched)
    have d: "safe_get ?t [''album'', ''release_date''] (PStr '''') = PStr ''1900''"
      using a by (rule placeholder_release_date)
    have b: "in_1900s ?t" using a by (rule placeholder_in_1900s)
    have s: "\<forall>ts c. decade_loop hs (?t # ts) c = decade_loop hs ts (counter_inc c ''1900'ler'')"
      using decade_loop_step_1900[OF a] by blast
    from m a d b s show ?thesis by blast
  qed
  have hist: "counter_get h ''1900'ler'' = length (filter in_1900s ?out) \<and>
      length (filter kept_without_album items) \<le> counter_get h ''1900'ler''"
    if h: "get_decade_distribution hs ?out = Inr h" for h
  proof -
    have c: "counter_get h ''1900'ler'' = length (filter in_1900s ?out)"
      using get_decade_distribution_spec(2)[OF h, of "''1900'ler''"]
      by (simp only: in_1900s_spec[symmetric])
    have "length (filter kept_without_album items) \<le> length (filter in_1900s ?out)"
      using kept_without_album_counted[of items] by (simp only: out)
    with c show ?thesis by simp
  qed
  have ret: "\<exists>h. get_decade_distribution hs ?out = Inr h"
    if "list_all (\<lambda>t. case safe_get t [''album'', ''release_date''] (PStr '''') of
                     PNone \<Rightarrow> True | PStr s \<Rightarrow> True | _ \<Rightarrow> False) ?out"
    using that by (rule get_decade_distribution_returns)
  from item hist ret show ?thesis by blast
qed

lemma mixed_items_eval:
  "PDict [(''track'', PDict [(''id'', PStr ''b''), (''album'', PStr ''x'')])] \<in> set mixed_items"
  "extract_track_obj (PDict [(''track'', PDict [(''id'', PStr ''b''), (''album'', PStr ''x'')])]) =
     Some [(''id'', PStr ''b''), (''album'', PStr ''x'')]"
  "truthy (PDict [(''id'', PStr ''b''), (''album'', PStr ''x'')])"
  "truthy (dict_get [(''id'', PStr ''b''), (''album'', PStr ''x'')] ''id'')"
  "album_missing [(''id'', PStr ''b''), (''album'', PStr ''x'')]"
  "get_decade_distribution False (clean_tracks (sanitize_track_list mixed_items)) =
     Inr [(''1900'ler'', 3), (''2000'ler'', 1)]"
  "length (filter kept_without_album mixed_items) = 3"
  "counter_get [(''1900'ler'', 3), (''2000'ler'', 1)] ''1900'ler'' = 3"
  by (simp_all add: mixed_items_def album_missing_def kept_without_album_def eval_defs
        decade_eval_defs)

text \<open>
  The theorem on the mixed list: the wrapper with the string album is kept, its track
  carries the placeholder album and is in the sanitized list, and the three album-less
  items are counted in \<open>1900'ler\<close> beside the \<open>2000'ler\<close> of the record with an album.
\<close>

theorem placeholder_album_counted_witness:
  "PDict [(''track'', PDict [(''id'', PStr ''b''), (''album'', PStr ''x'')])] \<in> set mixed_items \<and>
   extract_track_obj (PDict [(''track'', PDict [(''id'', PStr ''b''), (''album'', PStr ''x'')])]) =
     Some [(''id'', PStr ''b''), (''album'', PStr ''x'')] \<and>
   truthy (PDict [(''id'', PStr ''b''), (''album'', PStr ''x'')]) \<and>
   truthy (dict_get [(''id'', PStr ''b''), (''album'', PStr ''x'')] ''id'') \<and>
   album_missing [(''id'', PStr ''b''), (''album'', PStr ''x'')] \<and>
   PDict (fst (patch_track [(''id'', PStr ''b''), (''album'', PStr ''x'')])) \<in>
     set (clean_tracks (sanitize_track_list mixed_items)) \<and>
   track_field (PDict (fst (patch_track [(''id'', PStr ''b''), (''album'', PStr ''x'')]))) ''album'' =
     placeholder_album \<and>
   in_1900s (PDict (fst (patch_track [(''id'', PStr ''b''), (''album'', PStr ''x'')]))) \<and>
   get_decade_distribution False (clean_tracks (sanitize_track_list mixed_items)) =
     Inr [(''1900'ler'', 3), (''2000'ler'', 1)] \<and>
   length (filter kept_without_album mixed_items) = 3 \<and>
   counter_get [(''1900'ler'', 3), (''2000'ler'', 1)] ''1900'ler'' = 3 \<and>
   length (filter in_1900s (clean_tracks (sanitize_track_list mixed_items))) = 3"
  using placeholder_album_counted [of mixed_items False] mixed_items_eval
  by (simp only: simp_thms)

section \<open>Properties of the popularity statistics\<close>

subsection \<open>Lemmas on the popularity statistics\<close>

lemma popularities_dicts:
  "list_all isinstance_dict tracks \<Longrightarrow>
     popularities tracks = Inr (filter truthy (map track_popularity tracks))"
proof (induction tracks)
  case Nil
  then show ?case by simp
next
  case (Cons t ts)
  then obtain d where "t = PDict d" by (cases t) auto
  with Cons show ?case
    by (auto simp: track_popularity_def track_field_def dict_get_def dict_get_default_def
        split: option.splits)
qed

lemma popularities_app_dicts:
  "list_all (\<lambda>t. \<exists>d. unwrap_app t = Inr d) tracks \<Longrightarrow>
     popularities_app tracks = Inr (filter truthy (map track_popularity_app tracks))"
proof (induction tracks)
  case Nil
  then show ?case by simp
next
  case (Cons t ts)
  then obtain d where "unwrap_app t = Inr d" by auto
  with Cons show ?case
    by (auto simp: track_popularity_app_def dict_get_def dict_get_default_def
        split: option.splits)
qed

lemma as_ints_sample:
  "list_all int_or_falsy ps \<Longrightarrow> as_ints (filter truthy ps) = Some (int_sample ps)"
  by (induction ps rule: int_sample.induct) auto

lemma int_sample_empty:
  "list_all int_or_falsy ps \<Longrightarrow> (int_sample ps = []) = (filter truthy ps = [])"
  by (induction ps rule: int_sample.induct) auto

lemma fold_max_Max: "fold max xs (x::int) = Max (set (x # xs))"
  by (rule Max.set_eq_fold[symmetric])

lemma fold_min_Min: "fold min xs (x::int) = Min (set (x # xs))"
  by (rule Min.set_eq_fold[symmetric])

lemma as_ints_length: "as_ints ps = Some ns \<Longrightarrow> length ns = length ps"
  by (induction ps arbitrary: ns rule: as_ints.induct) auto

lemma stats_of_None: "(stats_of ps = Inr None) = (ps = [])"
  by (cases ps; cases "as_ints ps")
     (auto simp: stats_of_def dest: as_ints_length split: list.splits)

lemma statistics_median_spec:
  "statistics_median ns = median (spec_stats ns)"
  by (simp add: statistics_median_def spec_stats_def Let_def odd_iff_mod_2_eq_one)

lemma stats_of_ints:
  assumes "as_ints ps = Some ns" "ps \<noteq> []"
  shows "stats_of ps = Inr (Some (spec_stats ns))"
proof -
  from as_ints_length[OF assms(1)] assms(2) obtain x xs where ns: "ns = x # xs"
    by (cases ns) auto
  have "stats_of ps =
      Inr (Some \<lparr>avg = statistics_mean (x # xs), max_popularity = fold max xs x,
                  min_popularity = fold min xs x, median = statistics_median (x # xs)\<rparr>)"
    using assms unfolding stats_of_def ns by (simp only: if_False option.case list.case)
  also have "\<dots> = Inr (Some (spec_stats (x # xs)))"
    unfolding fold_max_Max fold_min_Min statistics_median_spec
    by (simp add: spec_stats_def statistics_mean_def del: sort_key_simps set_simps)
  finally show ?thesis by (simp only: ns)
qed

lemma analyze_popularity_dicts:
  assumes "list_all isinstance_dict tracks"
  shows "(analyze_popularity tracks = Inr None) =
           (\<not> list_ex (\<lambda>t. truthy (track_popularity t)) tracks)"
    and "list_all int_or_falsy (map track_popularity tracks) \<Longrightarrow>
         list_ex (\<lambda>t. truthy (track_popularity t)) tracks \<Longrightarrow>
         analyze_popularity tracks =
           Inr (Some (spec_stats (int_sample (map track_popularity tracks))))"
proof -
  let ?ps = "filter truthy (map track_popularity tracks)"
  have a: "analyze_popularity tracks = stats_of ?ps"
    by (simp add: analyze_popularity_def popularities_dicts[OF assms])
  have e: "(?ps = []) = (\<not> list_ex (\<lambda>t. truthy (track_popularity t)) tracks)"
    by (auto simp: filter_empty_conv list_ex_iff)
  show "(analyze_popularity tracks = Inr None) =
           (\<not> list_ex (\<lambda>t. truthy (track_popularity t)) tracks)"
    by (simp only: a stats_of_None e)
  assume i: "list_all int_or_falsy (map track_popularity tracks)"
    and x: "list_ex (\<lambda>t. truthy (track_popularity t)) tracks"
  from x e have ne: "?ps \<noteq> []" by simp
  from stats_of_ints[OF as_ints_sample[OF i] ne] show "analyze_popularity tracks =
           Inr (Some (spec_stats (int_sample (map track_popularity tracks))))"
    by (simp only: a)
qed

lemma analyze_popularity_app_dicts:
  assumes "list_all (\<lambda>t. \<exists>d. unwrap_app t = Inr d) tracks"
  shows "(analyze_popularity_app tracks = Inr None) =
           (\<not> list_ex (\<lambda>t. truthy (track_popularity_app t)) tracks)"
    and "list_all int_or_falsy (map track_popularity_app tracks) \<Longrightarrow>
         list_ex (\<lambda>t. truthy (track_popularity_app t)) tracks \<Longrightarrow>
         analyze_popularity_app tracks =
           Inr (Some (spec_stats (int_sample (map track_popularity_app tracks))))"
proof -
  let ?ps = "filter truthy (map track_popularity_app tracks)"
  have a: "analyze_popularity_app tracks = stats_of ?ps"
    by (simp add: analyze_popularity_app_def popularities_app_dicts[OF assms])
  have e: "(?ps = []) = (\<not> list_ex (\<lambda>t. truthy (track_popularity_app t)) tracks)"
    by (auto simp: filter_empty_conv list_ex_iff)
  show "(analyze_popularity_app tracks = Inr None) =
           (\<not> list_ex (\<lambda>t. truthy (track_popularity_app t)) tracks)"
    by (simp only: a stats_of_None e)
  assume i: "list_all int_or_falsy (map track_popularity_app tracks)"
    and x: "list_ex (\<lambda>t. truthy (track_popularity_app t)) tracks"
  from x e have ne: "?ps \<noteq> []" by simp
  from stats_of_ints[OF as_ints_sample[OF i] ne] show "analyze_popularity_app tracks =
           Inr (Some (spec_stats (int_sample (map track_popularity_app tracks))))"
    by (simp only: a)
qed

text \<open>
  Claim C7, for the function of appv2.py and for the one of app.py. On a list of tracks
  that are dicts (in app.py: whose unwrapped object is a dict too), the result is \<open>None\<close>
  exactly when no track has a truthy popularity. When the popularities are integers and
  one of them is truthy, the result holds the mean, maximum, minimum and median of the
  sample made of exactly the truthy (non-zero) popularities, in track order.
\<close>

theorem analyze_popularity_absent_iff:
  "(list_all isinstance_dict tracks \<longrightarrow>
      (analyze_popularity tracks = Inr None) =
        (\<not> list_ex (\<lambda>t. truthy (track_popularity t)) tracks) \<and>
      (list_all int_or_falsy (map track_popularity tracks) \<longrightarrow>
       list_ex (\<lambda>t. truthy (track_popularity t)) tracks \<longrightarrow>
       analyze_popularity tracks =
         Inr (Some (spec_stats (int_sample (map track_popularity tracks)))))) \<and>
   (list_all (\<lambda>t. \<exists>d. unwrap_app t = Inr d) tracks \<longrightarrow>
      (analyze_popularity_app tracks = Inr None) =
        (\<not> list_ex (\<lambda>t. truthy (track_popularity_app t)) tracks) \<and>
      (list_all int_or_falsy (map track_popularity_app tracks) \<longrightarrow>
       list_ex (\<lambda>t. truthy (track_popularity_app t)) tracks \<longrightarrow>
       analyze_popularity_app tracks =
         Inr (Some (spec_stats (int_sample (map track_popularity_app tracks))))))"
  using analyze_popularity_dicts[of tracks] analyze_popularity_app_dicts[of tracks]
  by blast

lemmas popularity_eval_defs = track_popularity_def track_popularity_app_def unwrap_app_def
  track_field_def dict_get_def dict_get_default_def spec_stats_def

text \<open>
  The theorem at four tracks with popularities 80, 0, 60 and none (the sample is 80, 60),
  and at a list where no popularity is truthy.
\<close>

theorem analyze_popularity_absent_iff_witness:
  "analyze_popularity
      [PDict [(''popularity'', PInt 80)], PDict [(''popularity'', PInt 0)],
       PDict [(''popularity'', PInt 60)], PDict [(''id'', PStr ''x'')]] =
     Inr (Some \<lparr>avg = 70, max_popularity = 80, min_popularity = 60, median = 70\<rparr>) \<and>
   analyze_popularity_app
      [PDict [(''popularity'', PInt 80)], PDict [(''popularity'', PInt 0)],
       PDict [(''popularity'', PInt 60)], PDict [(''id'', PStr ''x'')]] =
     Inr (Some \<lparr>avg = 70, max_popularity = 80, min_popularity = 60, median = 70\<rparr>) \<and>
   analyze_popularity [PDict [(''popularity'', PInt 0)], PDict [(''id'', PStr ''x'')]] = Inr None \<and>
   analyze_popularity_app [PDict [(''popularity'', PInt 0)], PDict [(''id'', PStr ''x'')]] = Inr None"
  using analyze_popularity_absent_iff
      [of "[PDict [(''popularity'', PInt 80)], PDict [(''popularity'', PInt 0)],
            PDict [(''popularity'', PInt 60)], PDict [(''id'', PStr ''x'')]]"]
    analyze_popularity_absent_iff
      [of "[PDict [(''popularity'', PInt 0)], PDict [(''id'', PStr ''x'')]]"]
  by (simp add: popularity_eval_defs)

section \<open>Properties of the recommendation reconciler\<close>

subsection \<open>Lemmas on the search loop\<close>

lemma search_phase_match:
  "truthy (search_phase sp q PNone) = (phase_match sp q \<noteq> None)"
  "phase_match sp q = Some uri \<Longrightarrow> search_phase sp q u = uri"
  "phase_match sp q = None \<Longrightarrow> \<not> truthy u \<Longrightarrow> \<not> truthy (search_phase sp q u)"
  "phase_match sp q = Some uri \<Longrightarrow> truthy uri"
  by (auto simp: search_phase_def phase_match_def split: option.splits if_splits)

lemma search_song_effect:
  "searches (search_song sp s st) = searches st @ queries sp s"
  "track_uris (search_song sp s st) = track_uris st @ resolved sp s"
  "songs_found_count (search_song sp s st) = songs_found_count st + length (resolved sp s)"
  "not_found_songs (search_song sp s st) =
     not_found_songs st @ (if resolved sp s = [] then [song_track s @ '' - '' @ song_artist s] else [])"
proof -
  show "searches (search_song sp s st) = searches st @ queries sp s"
    by (cases "phase_match sp (query_specific s)"; cases "phase_match sp (query_general s)")
       (simp_all add: search_song_def queries_def Let_def search_phase_match)
  show "track_uris (search_song sp s st) = track_uris st @ resolved sp s"
    by (cases "phase_match sp (query_specific s)"; cases "phase_match sp (query_general s)")
       (simp_all add: search_song_def resolved_def Let_def search_phase_match)
  show "songs_found_count (search_song sp s st) = songs_found_count st + length (resolved sp s)"
    by (cases "phase_match sp (query_specific s)"; cases "phase_match sp (query_general s)")
       (simp_all add: search_song_def resolved_def Let_def search_phase_match)
  show "not_found_songs (search_song sp s st) =
     not_found_songs st @ (if resolved sp s = [] then [song_track s @ '' - '' @ song_artist s] else [])"
    by (cases "phase_match sp (query_specific s)"; cases "phase_match sp (query_general s)")
       (simp_all add: search_song_def resolved_def Let_def search_phase_match)
qed

lemma search_song_app_effect:
  "searches (search_song_app sp s st) = searches st @ queries sp s"
  "track_uris (search_song_app sp s st) = track_uris st @ resolved sp s"
  "songs_found_count (search_song_app sp s st) = songs_found_count st + length (resolved sp s)"
  "not_found_songs (search_song_app sp s st) = not_found_songs st"
proof -
  show "searches (search_song_app sp s st) = searches st @ queries sp s"
    by (cases "phase_match sp (query_specific s)"; cases "phase_match sp (query_general s)")
       (simp_all add: search_song_app_def queries_def Let_def search_phase_match)
  show "track_uris (search_song_app sp s st) = track_uris st @ resolved sp s"
    by (cases "phase_match sp (query_specific s)"; cases "phase_match sp (query_general s)")
       (simp_all add: search_song_app_def resolved_def Let_def search_phase_match)
  show "songs_found_count (search_song_app sp s st) = songs_found_count st + length (resolved sp s)"
    by (cases "phase_match sp (query_specific s)"; cases "phase_match sp (query_general s)")
       (simp_all add: search_song_app_def resolved_def Let_def search_phase_match)
  show "not_found_songs (search_song_app sp s st) = not_found_songs st"
    by (cases "phase_match sp (query_specific s)"; cases "phase_match sp (query_general s)")
       (simp_all add: search_song_app_def Let_def search_phase_match)
qed

lemma length_resolved: "length (resolved sp s) \<le> 1"
  by (simp add: resolved_def split: option.splits)

lemma step_ok_search_song: "step_ok (search_song sp)"
  using length_resolved[of sp] by (simp add: step_ok_def search_song_effect)

lemma step_ok_search_song_app: "step_ok (search_song_app sp)"
  using length_resolved[of sp] by (simp add: step_ok_def search_song_app_effect)

lemma search_loop_bound:
  assumes "step_ok step" "songs_found_count st = length (track_uris st)"
    "songs_found_count st \<le> target"
  shows "songs_found_count (search_loop step target songs st) =
           length (track_uris (search_loop step target songs st)) \<and>
         songs_found_count (search_loop step target songs st) \<le> target"
  using assms(2,3)
proof (induction songs arbitrary: st)
  case Nil
  then show ?case by simp
next
  case (Cons s songs)
  show ?case
  proof (cases "songs_found_count st \<ge> target")
    case True
    with Cons.prems show ?thesis by simp
  next
    case False
    from assms(1) Cons.prems(1)
    have "songs_found_count (step s st) = length (track_uris (step s st))"
      and "songs_found_count (step s st) \<le> songs_found_count st + 1"
      unfolding step_ok_def by blast+
    with False have "songs_found_count (step s st) = length (track_uris (step s st))"
      and "songs_found_count (step s st) \<le> target" by simp_all
    from Cons.IH[OF this] False show ?thesis by simp
  qed
qed

lemma search_loop_stop:
  "songs_found_count st \<ge> target \<Longrightarrow> search_loop step target songs st = st"
  by (cases songs) simp_all

lemma search_loop_mono:
  assumes "step_ok step" "songs_found_count st = length (track_uris st)"
  shows "songs_found_count st \<le> songs_found_count (search_loop step target songs st)"
  using assms(2)
proof (induction songs arbitrary: st)
  case Nil
  then show ?case by simp
next
  case (Cons s songs)
  show ?case
  proof (cases "songs_found_count st \<ge> target")
    case True
    then show ?thesis by simp
  next
    case False
    from assms(1) Cons.prems
    have a: "songs_found_count (step s st) = length (track_uris (step s st))"
      and b: "songs_found_count st \<le> songs_found_count (step s st)"
      unfolding step_ok_def by blast+
    from Cons.IH[OF a] b False show ?thesis by simp
  qed
qed

lemma search_loop_append:
  "search_loop step target (xs @ ys) st =
     search_loop step target ys (search_loop step target xs st)"
proof (induction xs arbitrary: st)
  case Nil
  then show ?case by simp
next
  case (Cons x xs)
  then show ?case by (simp add: search_loop_stop)
qed

lemma create_search_bound:
  "songs_found_count (create_spotify_playlist_search sp songs) =
     length (track_uris (create_spotify_playlist_search sp songs))"
  "songs_found_count (create_spotify_playlist_search sp songs) \<le> PLAYLIST_TARGET_SIZE"
  using search_loop_bound[OF step_ok_search_song, of initial_search_state PLAYLIST_TARGET_SIZE sp songs]
  by (simp_all add: create_spotify_playlist_search_def initial_search_state_def)

lemma create_search_app_bound:
  "songs_found_count (create_spotify_playlist_search_app sp songs) =
     length (track_uris (create_spotify_playlist_search_app sp songs))"
  "songs_found_count (create_spotify_playlist_search_app sp songs) \<le> 10"
  using search_loop_bound[OF step_ok_search_song_app, of initial_search_state 10 sp songs]
  by (simp_all add: create_spotify_playlist_search_app_def initial_search_state_def)

text \<open>
  Claim C3, for the loop of appv2.py (target \<open>PLAYLIST_TARGET_SIZE = 10\<close>) and the loop
  of app.py (target 10). The list of resolved URIs never has more than 10 entries. Once
  the suggestions processed so far have brought the resolved count to the target, any
  suggestions that follow change nothing: the result, and with it the log of search
  queries, is the one reached without them.
\<close>

theorem reconciler_target:
  "PLAYLIST_TARGET_SIZE = 10 \<and>
   length (track_uris (create_spotify_playlist_search sp songs)) \<le> PLAYLIST_TARGET_SIZE \<and>
   length (track_uris (create_spotify_playlist_search_app sp songs)) \<le> 10 \<and>
   (songs_found_count (create_spotify_playlist_search sp songs) \<ge> PLAYLIST_TARGET_SIZE \<longrightarrow>
      create_spotify_playlist_search sp (songs @ later) = create_spotify_playlist_search sp songs \<and>
      searches (create_spotify_playlist_search sp (songs @ later)) =
        searches (create_spotify_playlist_search sp songs)) \<and>
   (songs_found_count (create_spotify_playlist_search_app sp songs) \<ge> 10 \<longrightarrow>
      create_spotify_playlist_search_app sp (songs @ later) =
        create_spotify_playlist_search_app sp songs \<and>
      searches (create_spotify_playlist_search_app sp (songs @ later)) =
        searches (create_spotify_playlist_search_app sp songs))"
proof (intro conjI impI)
  show "PLAYLIST_TARGET_SIZE = 10" by (simp add: PLAYLIST_TARGET_SIZE_def)
  show "length (track_uris (create_spotify_playlist_search sp songs)) \<le> PLAYLIST_TARGET_SIZE"
    using create_search_bound[of sp songs] by simp
  show "length (track_uris (create_spotify_playlist_search_app sp songs)) \<le> 10"
    using create_search_app_bound[of sp songs] by simp
next
  assume "PLAYLIST_TARGET_SIZE \<le> songs_found_count (create_spotify_playlist_search sp songs)"
  then show a: "create_spotify_playlist_search sp (songs @ later) =
      create_spotify_playlist_search sp songs"
    by (simp add: create_spotify_playlist_search_def search_loop_append search_loop_stop)
  then show "searches (create_spotify_playlist_search sp (songs @ later)) =
        searches (create_spotify_playlist_search sp songs)"
    by simp
next
  assume "10 \<le> songs_found_count (create_spotify_playlist_search_app sp songs)"
  then show a: "create_spotify_playlist_search_app sp (songs @ later) =
      create_spotify_playlist_search_app sp songs"
    by (simp add: create_spotify_playlist_search_app_def search_loop_append search_loop_stop)
  then show "searches (create_spotify_playlist_search_app sp (songs @ later)) =
        searches (create_spotify_playlist_search_app sp songs)"
    by simp
qed

lemmas search_eval_defs = create_spotify_playlist_search_def create_spotify_playlist_search_app_def
  search_song_def search_song_app_def search_phase_def first_track_uri_def
  initial_search_state_def PLAYLIST_TARGET_SIZE_def query_specific_def query_general_def
  found_response_def demo_song_def sp_finds_all_def sp_specific_raises_def Let_def

lemma ten_found:
  "songs_found_count (create_spotify_playlist_search sp_finds_all
      [demo_song, demo_song, demo_song, demo_song, demo_song,
       demo_song, demo_song, demo_song, demo_song, demo_song]) = 10"
  "songs_found_count (create_spotify_playlist_search_app sp_finds_all
      [demo_song, demo_song, demo_song, demo_song, demo_song,
       demo_song, demo_song, demo_song, demo_song, demo_song]) = 10"
  by (simp_all add: search_eval_defs)

text \<open>
  The theorem at the spec's scenario 3: ten suggestions that all resolve in the first
  phase, followed by five more, which are never searched for.
\<close>

theorem reconciler_target_witness:
  "searches (create_spotify_playlist_search sp_finds_all
      ([demo_song, demo_song, demo_song, demo_song, demo_song,
        demo_song, demo_song, demo_song, demo_song, demo_song] @
       [demo_song, demo_song, demo_song, demo_song, demo_song])) =
   searches (create_spotify_playlist_search sp_finds_all
      [demo_song, demo_song, demo_song, demo_song, demo_song,
       demo_song, demo_song, demo_song, demo_song, demo_song]) \<and>
   searches (create_spotify_playlist_search_app sp_finds_all
      ([demo_song, demo_song, demo_song, demo_song, demo_song,
        demo_song, demo_song, demo_song, demo_song, demo_song] @
       [demo_song, demo_song, demo_song, demo_song, demo_song])) =
   searches (create_spotify_playlist_search_app sp_finds_all
      [demo_song, demo_song, demo_song, demo_song, demo_song,
       demo_song, demo_song, demo_song, demo_song, demo_song])"
  using reconciler_target [of sp_finds_all
      "[demo_song, demo_song, demo_song, demo_song, demo_song,
        demo_song, demo_song, demo_song, demo_song, demo_song]"
      "[demo_song, demo_song, demo_song, demo_song, demo_song]"]
    ten_found
  by (simp only: PLAYLIST_TARGET_SIZE_def order_refl simp_thms)



section \<open>Properties of the genre and artist analysis\<close>

subsection \<open>Lemmas on the genre analysis\<close>

lemma genres_loop_keeps:
  "lookups (genres_loop genres name st) = lookups st"
  "processed_artists (genres_loop genres name st) = processed_artists st"
  "artist_counter (genres_loop genres name st) = artist_counter st"
  by (induction genres name st rule: genres_loop.induct) simp_all

lemma record_genres_keeps:
  "lookups (record_genres r name st) = lookups st"
  "processed_artists (record_genres r name st) = processed_artists st"
  "artist_counter (record_genres r name st) = artist_counter st"
  by (simp_all add: record_genres_def genres_loop_keeps split: option.splits pyval.splits)

lemma artist_step_lookups_ok:
  "lookups_ok st \<Longrightarrow> lookups_ok (fst (artist_step sp artist st))"
  by (cases artist)
     (auto simp: artist_step_def lookups_ok_def Let_def record_genres_keeps set_add_def)

lemma artists_loop_lookups_ok:
  "lookups_ok st \<Longrightarrow> lookups_ok (fst (artists_loop (artist_step sp) artists st))"
proof (induction artists arbitrary: st)
  case Nil
  then show ?case by simp
next
  case (Cons a as)
  from artist_step_lookups_ok[OF Cons.prems, of sp a]
  show ?case
    by (cases "artist_step sp a st") (auto simp: Cons.IH split: option.splits)
qed

lemma tracks_loop_lookups_ok:
  "lookups_ok st \<Longrightarrow> lookups_ok (fst (tracks_loop track_artists (artist_step sp) tracks st))"
proof (induction tracks arbitrary: st)
  case Nil
  then show ?case by simp
next
  case (Cons t ts)
  show ?case
  proof (cases "track_artists t")
    case (Inl e)
    with Cons.prems show ?thesis by simp
  next
    case (Inr artists)
    from artists_loop_lookups_ok[OF Cons.prems, of sp artists]
    show ?thesis
      by (cases "artists_loop (artist_step sp) artists st")
         (auto simp: Inr Cons.IH split: option.splits)
  qed
qed

lemma artist_step_counter:
  "artist_step sp artist st = (st', None) \<Longrightarrow>
     counter_get (artist_counter st') n =
       counter_get (artist_counter st) n + count_list (counted_name artist) n"
  by (cases artist)
     (auto simp: artist_step_def counted_name_def Let_def record_genres_keeps counter_get_inc
           split: if_splits)

lemma artists_loop_counter:
  "artists_loop (artist_step sp) artists st = (st', None) \<Longrightarrow>
     counter_get (artist_counter st') n =
       counter_get (artist_counter st) n + count_list (concat (map counted_name artists)) n"
proof (induction artists arbitrary: st)
  case Nil
  then show ?case by simp
next
  case (Cons a as)
  obtain st1 e where s: "artist_step sp a st = (st1, e)" by (cases "artist_step sp a st")
  with Cons.prems have e: "e = None" and r: "artists_loop (artist_step sp) as st1 = (st', None)"
    by (auto split: option.splits)
  from artist_step_counter[of sp a st st1 n] s e Cons.IH[OF r] show ?case by simp
qed

lemma tracks_loop_counter:
  "tracks_loop track_artists (artist_step sp) tracks st = (st', None) \<Longrightarrow>
     counter_get (artist_counter st') n =
       counter_get (artist_counter st) n + count_list (appearances tracks) n"
proof (induction tracks arbitrary: st)
  case Nil
  then show ?case by (simp add: appearances_def)
next
  case (Cons t ts)
  show ?case
  proof (cases "track_artists t")
    case (Inl e)
    with Cons.prems show ?thesis by simp
  next
    case (Inr artists)
    obtain st1 e where s: "artists_loop (artist_step sp) artists st = (st1, e)"
      by (cases "artists_loop (artist_step sp) artists st")
    with Cons.prems Inr have e: "e = None"
      and r: "tracks_loop track_artists (artist_step sp) ts st1 = (st', None)"
      by (auto split: option.splits)
    from artists_loop_counter[of sp artists st st1 n] s e Cons.IH[OF r] Inr
    show ?thesis by (simp add: appearances_def)
  qed
qed

text \<open>
  The function of appv2.py does what claim C2 says. Whatever the tracks and the catalog,
  no artist id is looked up twice in a run; and in a run that no exception ends, the
  occurrence counter of a name is the number of appearances of artist references with a
  truthy id under that name.
\<close>

lemma analyze_genres_lookups_distinct:
  "distinct (lookups (fst (analyze_genres sp tracks)))"
  using tracks_loop_lookups_ok[of initial_genre_state sp tracks]
  by (simp add: analyze_genres_def lookups_ok_def initial_genre_state_def)

lemma analyze_genres_artist_counter:
  "analyze_genres sp tracks = (st, None) \<Longrightarrow>
     counter_get (artist_counter st) n = count_list (appearances tracks) n"
  using tracks_loop_counter[of sp tracks initial_genre_state st n]
  by (simp add: analyze_genres_def initial_genre_state_def counter_get_def dict_get_default_def)

lemmas genre_eval_defs = analyze_genres_def analyze_genres_app_def track_artists_def
  track_artists_app_def artist_step_def artist_step_app_def record_genres_def set_add_def
  initial_genre_state_def same_artist_tracks_def sp_rock_def counter_inc_def counter_get_def
  dict_get_def dict_get_default_def Let_def

text \<open>
  Claim C2 fails on app.py: its \<open>analyze_genres\<close> has no set of processed artists and
  calls the catalog for every artist reference, so an artist on two tracks is looked up
  twice (and each of the artist's genres is counted twice). On the same input the
  function of appv2.py looks the artist up once and counts two appearances.
\<close>

theorem analyze_genres_app_repeats_lookup:
  "lookups (fst (analyze_genres_app sp_rock same_artist_tracks)) = [PStr ''a1'', PStr ''a1''] \<and>
   artist_counter (fst (analyze_genres_app sp_rock same_artist_tracks)) = [(PStr ''A'', 2)] \<and>
   genre_counter (fst (analyze_genres_app sp_rock same_artist_tracks)) = [(PStr ''rock'', 2)] \<and>
   snd (analyze_genres_app sp_rock same_artist_tracks) = None \<and>
   lookups (fst (analyze_genres sp_rock same_artist_tracks)) = [PStr ''a1''] \<and>
   artist_counter (fst (analyze_genres sp_rock same_artist_tracks)) = [(PStr ''A'', 2)] \<and>
   genre_counter (fst (analyze_genres sp_rock same_artist_tracks)) = [(PStr ''rock'', 1)] \<and>
   snd (analyze_genres sp_rock same_artist_tracks) = None"
  by (simp add: genre_eval_defs)

section \<open>Properties of the merge\<close>

subsection \<open>Lemmas on the merge\<close>

lemma distinct_dict_set:
  "distinct (map fst d) \<Longrightarrow> distinct (map fst (dict_set d k v))"
proof (induction d)
  case Nil
  then show ?case by simp
next
  case (Cons p d)
  obtain k' v' where p: "p = (k', v')" by (cases p)
  from Cons show ?case
    by (auto simp: p set_fst_dict_set[simplified] image_iff dest: arg_cong[where f=set])
qed

lemma merge_tracks_mergeable:
  "list_all mergeable tracks \<Longrightarrow> snd (merge_tracks tracks d) = None"
  by (induction tracks arbitrary: d)
     (auto simp: mergeable_def split: sum.splits option.splits)

lemma merge_tracks_append:
  "list_all mergeable xs \<Longrightarrow>
     fst (merge_tracks (xs @ ys) d) = fst (merge_tracks ys (fst (merge_tracks xs d)))"
  by (induction xs arbitrary: d)
     (auto simp: mergeable_def split: sum.splits option.splits)

lemma merge_playlists_sources:
  "list_all mergeable (concat (map (\<lambda>p. case p of None \<Rightarrow> [] | Some ts \<Rightarrow> ts) playlists)) \<Longrightarrow>
     merge_playlists playlists d =
       fst (merge_tracks (concat (map (\<lambda>p. case p of None \<Rightarrow> [] | Some ts \<Rightarrow> ts) playlists)) d)"
proof (induction playlists arbitrary: d)
  case Nil
  then show ?case by simp
next
  case (Cons p ps)
  show ?case
  proof (cases p)
    case None
    with Cons show ?thesis by simp
  next
    case (Some ts)
    with Cons.prems have ts: "list_all mergeable ts"
      and rest: "list_all mergeable (concat (map (\<lambda>p. case p of None \<Rightarrow> [] | Some ts \<Rightarrow> ts) ps))"
      by simp_all
    show ?thesis
      by (simp add: Some Cons.IH[OF rest] merge_tracks_append[OF ts])
  qed
qed

lemma merge_tracks_invariant:
  assumes "list_all mergeable tracks" "distinct (map fst d)"
  shows "distinct (map fst (fst (merge_tracks tracks d)))"
    and "fst ` set (fst (merge_tracks tracks d)) = fst ` set d \<union> source_ids tracks"
    and "map_of (fst (merge_tracks tracks d)) k =
           (if k \<in> source_ids tracks then Some (last_written tracks k) else map_of d k)"
  using assms
proof (induction tracks arbitrary: d)
  case Nil
  { case 1 then show ?case by simp }
  { case 2 then show ?case by (simp add: source_ids_def) }
  { case 3 then show ?case by (simp add: source_ids_def) }
next
  case (Cons t ts)
  { case 1
    then show ?case
      using Cons(1) by (auto simp: mergeable_def distinct_dict_set split: sum.splits option.splits) }
  { case 2
    then show ?case
      using Cons(2)[of d] Cons(2)[of "dict_set d k' t" for k']
      by (auto simp: mergeable_def distinct_dict_set set_fst_dict_set source_ids_def
          split: sum.splits option.splits) }
  { case 3
    then show ?case
      using Cons(3)[of d] Cons(3)[of "dict_set d k' t" for k']
      by (auto simp: mergeable_def distinct_dict_set map_of_dict_set source_ids_def
          last_written_def filter_empty_conv split: sum.splits option.splits) }
qed

lemma track_key_id:
  "track_key t = Inr (Some k) \<Longrightarrow> track_field t ''id'' = k \<and> truthy k"
  by (cases t) (auto simp: track_key_def track_field_def split: if_splits)

lemma get_all_user_tracks_heavy_sources:
  assumes "list_all mergeable (all_sources saved_tracks playlists)"
  shows "get_all_user_tracks_heavy saved_tracks playlists =
           Inr (map snd (fst (merge_tracks (all_sources saved_tracks playlists) [])))"
proof -
  let ?rest = "concat (map (\<lambda>p. case p of None \<Rightarrow> [] | Some ts \<Rightarrow> ts) playlists)"
  from assms have s: "list_all mergeable saved_tracks" and r: "list_all mergeable ?rest"
    by (simp_all add: all_sources_def)
  obtain d e where m: "merge_tracks saved_tracks [] = (d, e)"
    by (cases "merge_tracks saved_tracks []")
  with merge_tracks_mergeable[OF s, of "[]"] have e: "e = None" by simp
  have "fst (merge_tracks (saved_tracks @ ?rest) []) = merge_playlists playlists d"
    using m by (simp add: merge_tracks_append[OF s] merge_playlists_sources[OF r])
  then show ?thesis
    by (simp add: get_all_user_tracks_heavy_def m e all_sources_def)
qed

text \<open>
  Claim C6. When every track of every source is well-formed for the merge (falsy, or a
  dict whose id is falsy or hashable, as the fetchers deliver them), the function returns
  a list with one entry per distinct non-empty id across the saved tracks and the
  playlists that could be fetched: its length is the number of those ids, no id occurs
  twice in it, and the entry kept for an id is the last track written under it.
\<close>

theorem merge_by_id:
  assumes "list_all mergeable (all_sources saved_tracks playlists)"
  shows "\<exists>merged. get_all_user_tracks_heavy saved_tracks playlists = Inr merged \<and>
           length merged = card (source_ids (all_sources saved_tracks playlists)) \<and>
           distinct (map (\<lambda>t. track_field t ''id'') merged) \<and>
           set (map (\<lambda>t. track_field t ''id'') merged) =
             source_ids (all_sources saved_tracks playlists) \<and>
           list_all (\<lambda>t. truthy (track_field t ''id'') \<and>
                          t = last_written (all_sources saved_tracks playlists)
                                (track_field t ''id'')) merged"
proof -
  let ?all = "all_sources saved_tracks playlists"
  let ?d = "fst (merge_tracks ?all [])"
  have dist: "distinct (map fst ?d)"
    and keys: "fst ` set ?d = source_ids ?all"
    and look: "\<And>k. map_of ?d k = (if k \<in> source_ids ?all then Some (last_written ?all k) else None)"
    using merge_tracks_invariant[OF assms, of "[]"] by simp_all
  have entry: "track_field t ''id'' = k \<and> truthy k \<and> t = last_written ?all k"
    if "(k, t) \<in> set ?d" for k t
  proof -
    from that dist have "map_of ?d k = Some t" by simp
    with look[of k] have k: "k \<in> source_ids ?all" and t: "t = last_written ?all k"
      by (auto split: if_splits)
    from k have "filter (\<lambda>t. track_key t = Inr (Some k)) ?all \<noteq> []"
      by (auto simp: source_ids_def filter_empty_conv)
    from last_in_set[OF this] have "track_key (last_written ?all k) = Inr (Some k)"
      by (simp add: last_written_def)
    with t track_key_id[of t k] show ?thesis by simp
  qed
  have ids: "map (\<lambda>t. track_field t ''id'') (map snd ?d) = map fst ?d"
    using entry by (auto simp: map_eq_conv)
  have "length (map snd ?d) = card (source_ids ?all)"
    using distinct_card[OF dist] keys by simp
  moreover have "distinct (map (\<lambda>t. track_field t ''id'') (map snd ?d))"
    using dist by (simp only: ids)
  moreover have "set (map (\<lambda>t. track_field t ''id'') (map snd ?d)) = source_ids ?all"
    using keys by (simp only: ids set_map)
  moreover have "list_all (\<lambda>t. truthy (track_field t ''id'') \<and>
                    t = last_written ?all (track_field t ''id'')) (map snd ?d)"
    using entry by (auto simp: list_all_iff)
  ultimately show ?thesis
    using get_all_user_tracks_heavy_sources[OF assms] by blast
qed

lemmas merge_eval_defs = get_all_user_tracks_heavy_def track_key_def all_sources_def
  mergeable_def dict_get_def dict_get_default_def track_field_def

text \<open>
  The theorem at the spec's scenario 5, with the library on top: the id \<open>x9\<close> is in the
  saved tracks and in two playlists (a third could not be fetched); the merged list has
  one entry for it, the one of the last playlist.
\<close>

theorem merge_by_id_witness:
  "get_all_user_tracks_heavy
      [PDict [(''id'', PStr ''x9''), (''name'', PStr ''saved'')], PDict [(''id'', PStr ''a'')]]
      [Some [PDict [(''id'', PStr ''x9''), (''name'', PStr ''first'')]], None,
       Some [PDict [(''id'', PStr ''x9''), (''name'', PStr ''second'')], PDict []]] =
     Inr [PDict [(''id'', PStr ''x9''), (''name'', PStr ''second'')], PDict [(''id'', PStr ''a'')]] \<and>
   card (source_ids (all_sources
      [PDict [(''id'', PStr ''x9''), (''name'', PStr ''saved'')], PDict [(''id'', PStr ''a'')]]
      [Some [PDict [(''id'', PStr ''x9''), (''name'', PStr ''first'')]], None,
       Some [PDict [(''id'', PStr ''x9''), (''name'', PStr ''second'')], PDict []]])) = 2"
proof -
  let ?s = "[PDict [(''id'', PStr ''x9''), (''name'', PStr ''saved'')], PDict [(''id'', PStr ''a'')]]"
  let ?p = "[Some [PDict [(''id'', PStr ''x9''), (''name'', PStr ''first'')]], None,
       Some [PDict [(''id'', PStr ''x9''), (''name'', PStr ''second'')], PDict []]]"
  have m: "list_all mergeable (all_sources ?s ?p)"
    by (simp add: merge_eval_defs)
  have r: "get_all_user_tracks_heavy ?s ?p =
     Inr [PDict [(''id'', PStr ''x9''), (''name'', PStr ''second'')], PDict [(''id'', PStr ''a'')]]"
    by (simp add: merge_eval_defs)
  from merge_by_id[OF m] r have "card (source_ids (all_sources ?s ?p)) = 2"
    by auto
  with r show ?thesis by simp
qed

text \<open>The lists the fetchers deliver are well-formed for the merge as soon as their ids
  are hashable (catalog ids are strings).\<close>

lemma fetched_tracks_mergeable:
  assumes "list_all (\<lambda>t. hashable (track_field t ''id'')) (fetched_tracks items)"
  shows "list_all mergeable (fetched_tracks items)"
proof -
  have m: "mergeable (safe_get item [''track''] PNone)"
    if "isinstance_dict (safe_get item [''track''] PNone)"
      and "truthy (safe_get item [''track'', ''id''] PNone)"
      and "hashable (track_field (safe_get item [''track''] PNone) ''id'')" for item
  proof (cases item)
    case (PDict d)
    with that(1) obtain t where t: "dict_get_default d ''track'' PNone = PDict t"
      by (cases "dict_get_default d ''track'' PNone") auto
    with that(2,3) PDict show ?thesis
      by (auto simp: mergeable_def track_key_def track_field_def dict_get_def)
  qed (use that in auto)
  show ?thesis
    using assms m unfolding fetched_tracks_def list_all_iff
    by (auto simp del: safe_get.simps)
qed

end
